(* ===== verification/Prelude.thy ===== *)
theory Prelude
  imports Main "HOL-Library.Multiset"
begin

text \<open>
  Shared vocabulary of the chat-components model: the types that name the
  program's values, the JavaScript runtime conventions the components rely on
  (truthiness of \<open>||\<close>, numeric coercion of timetokens, insertion-ordered
  sets, \<open>Array.prototype.sort\<close> with a comparator), and the generic lemmas on
  lists and sorting that the component theories share.
\<close>

named_theorems js_simps "evaluation rules of the JavaScript runtime helpers"

type_synonym timetoken = int
type_synonym uuid = string
type_synonym channel_id = string

section \<open>JavaScript runtime conventions\<close>

subsection \<open>Truthiness of optional strings\<close>

text \<open>
  A TypeScript \<open>string | undefined\<close> is \<open>string option\<close>; JavaScript's
  \<open>a || b\<close> returns \<open>b\<close> when \<open>a\<close> is \<open>undefined\<close> or the empty string.
\<close>

fun truthy :: "string option \<Rightarrow> bool" where
  "truthy None = False"
| "truthy (Some s) = (s \<noteq> [])"

definition js_or :: "string option \<Rightarrow> string option \<Rightarrow> string option" where
  "js_or a b = (if truthy a then a else b)"

definition js_or_default :: "string option \<Rightarrow> string \<Rightarrow> string" where
  "js_or_default a d = (case a of Some s \<Rightarrow> if s = [] then d else s | None \<Rightarrow> d)"

subsection \<open>Numeric coercion of timetokens\<close>

text \<open>
  The comparator \<open>(a, b) => a.timetoken - b.timetoken\<close> coerces each
  timetoken to an IEEE double. An integer is exact below \<open>2^53\<close>; above it is
  rounded to the nearest value with 53 significant bits, ties to even.
  \<open>bit_len n\<close> is the number of binary digits of \<open>n\<close>. Magnitudes beyond
  the double range (\<open>2^1024\<close>, far above any timetoken) are not modelled.
\<close>

fun bit_len :: "nat \<Rightarrow> nat" where
  "bit_len n = (if n = 0 then 0 else Suc (bit_len (n div 2)))"

declare bit_len.simps [simp del]

definition round_double_nat :: "nat \<Rightarrow> nat" where
  "round_double_nat n =
     (let e = bit_len n - 53 in
      if e = 0 then n
      else let q = n div 2 ^ e; r = n mod 2 ^ e; h = 2 ^ (e - 1) in
        (if r < h \<or> (r = h \<and> even q) then q else q + 1) * 2 ^ e)"

definition js_number :: "int \<Rightarrow> int" where
  "js_number i = sgn i * int (round_double_nat (nat \<bar>i\<bar>))"

subsection \<open>Insertion-ordered deduplication\<close>

text \<open>
  \<open>Array.from(new Set(xs))\<close> keeps the first occurrence of each element, in
  order; the library's \<open>remdups\<close> keeps the last, so the model has its own.
\<close>

fun dedup_first :: "'a list \<Rightarrow> 'a list" where
  "dedup_first [] = []"
| "dedup_first (x # xs) = x # dedup_first (filter (\<lambda>y. y \<noteq> x) xs)"

subsection \<open>Sorting with a comparator\<close>

text \<open>
  \<open>Array.prototype.sort(cmp)\<close> is a stable sort driven by the comparator's
  sign. \<open>js_sort\<close> is the stable insertion sort the engines use on short
  arrays; for a comparator consistent with a key (\<open>cmp_by_key\<close>) every stable
  sort gives the same result, the library's \<open>sort_key\<close> (\<open>js_sort_sort_key\<close>).
\<close>

fun js_insert :: "('a \<Rightarrow> 'a \<Rightarrow> int) \<Rightarrow> 'a \<Rightarrow> 'a list \<Rightarrow> 'a list" where
  "js_insert cmp x [] = [x]"
| "js_insert cmp x (y # ys) = (if 0 < cmp y x then x # y # ys else y # js_insert cmp x ys)"

definition js_sort :: "('a \<Rightarrow> 'a \<Rightarrow> int) \<Rightarrow> 'a list \<Rightarrow> 'a list" where
  "js_sort cmp xs = foldl (\<lambda>acc x. js_insert cmp x acc) [] xs"

definition cmp_by_key :: "('a \<Rightarrow> 'k::linorder) \<Rightarrow> ('a \<Rightarrow> 'a \<Rightarrow> int) \<Rightarrow> bool" where
  "cmp_by_key k cmp \<longleftrightarrow> (\<forall>a b. 0 < cmp a b \<longleftrightarrow> k b < k a)"

subsection \<open>Numbers as strings\<close>

text \<open>
  \<open>parseInt(s)\<close>: leading white space is skipped, one sign is read, a
  \<open>0x\<close>/\<open>0X\<close> prefix switches to radix 16, then the longest prefix of digits
  is read; none gives \<open>NaN\<close> (\<open>None\<close>). The value is rounded to a double
  (\<open>js_number\<close>). White space is the ASCII part of ECMAScript's
  \<open>StrWhiteSpaceChar\<close>. \<open>show_int\<close> is \<open>String(x)\<close> of an integer-valued number
  below \<open>10^21\<close>, where JavaScript prints all digits.
\<close>

definition digit_val :: "nat \<Rightarrow> char \<Rightarrow> nat option" where
  "digit_val r c =
     (let n = of_char c :: nat;
          d = (if 48 \<le> n \<and> n \<le> 57 then Some (n - 48)
               else if 97 \<le> n \<and> n \<le> 122 then Some (n - 87)
               else if 65 \<le> n \<and> n \<le> 90 then Some (n - 55) else None)
      in case d of Some v \<Rightarrow> if v < r then Some v else None | None \<Rightarrow> None)"

definition is_digit :: "nat \<Rightarrow> char \<Rightarrow> bool" where
  "is_digit r c \<longleftrightarrow> digit_val r c \<noteq> None"

definition digits_value :: "nat \<Rightarrow> string \<Rightarrow> nat" where
  "digits_value r ds = foldl (\<lambda>n c. n * r + (case digit_val r c of Some d \<Rightarrow> d | None \<Rightarrow> 0)) 0 ds"

definition js_whitespace :: "char \<Rightarrow> bool" where
  "js_whitespace c \<longleftrightarrow> (of_char c :: nat) \<in> {9, 10, 11, 12, 13, 32}"

text \<open>\<open>parseInt(s)\<close> without a radix, step by step: sign, then an optional \<open>0x\<close> prefix.\<close>

definition strip_sign :: "string \<Rightarrow> int \<times> string" where
  "strip_sign s = (case s of
      c # r \<Rightarrow> if c = CHR ''-'' then (-1, r) else if c = CHR ''+'' then (1, r) else (1, s)
    | [] \<Rightarrow> (1, []))"

definition strip_prefix :: "string \<Rightarrow> nat \<times> string" where
  "strip_prefix s = (case s of
      c0 # c1 # r \<Rightarrow> if c0 = CHR ''0'' \<and> (c1 = CHR ''x'' \<or> c1 = CHR ''X'') then (16, r) else (10, s)
    | _ \<Rightarrow> (10, s))"

definition parse_int :: "string \<Rightarrow> int option" where
  "parse_int s0 =
     (let (sign, s2) = strip_sign (dropWhile js_whitespace s0);
          (radix, s3) = strip_prefix s2;
          z = takeWhile (is_digit radix) s3
      in if z = [] then None else Some (js_number (sign * int (digits_value radix z))))"

fun show_nat :: "nat \<Rightarrow> string" where
  "show_nat n = (if n < 10 then [char_of (48 + n)] else show_nat (n div 10) @ [char_of (48 + n mod 10)])"

declare show_nat.simps [simp del]

definition show_int :: "int \<Rightarrow> string" where
  "show_int i = (if i < 0 then CHR ''-'' # show_nat (nat (- i)) else show_nat (nat i))"

text \<open>
  \<open>Object.keys\<close>: keys that are array indices (canonical decimal numerals
  below \<open>2^32 - 1\<close>) come first in ascending numeric order, the others follow
  in insertion order. An object is an association list with distinct keys.
\<close>

definition dec_digit :: "char \<Rightarrow> bool" where
  "dec_digit c \<longleftrightarrow> 48 \<le> (of_char c :: nat) \<and> (of_char c :: nat) \<le> 57"

definition is_array_index :: "string \<Rightarrow> bool" where
  "is_array_index s \<longleftrightarrow>
     s \<noteq> [] \<and> list_all (\<lambda>c. digit_val 10 c \<noteq> None) s \<and> (s = ''0'' \<or> hd s \<noteq> CHR ''0'')
     \<and> digits_value 10 s < 2 ^ 32 - 1"

definition object_keys :: "(string \<times> 'v) list \<Rightarrow> string list" where
  "object_keys kvs =
     (let ks = map fst kvs
      in sort_key (digits_value 10) (filter is_array_index ks) @ filter (\<lambda>k. \<not> is_array_index k) ks)"

section \<open>Lemmas\<close>

subsection \<open>Truthiness\<close>

lemma js_or_default_truthy [js_simps]:
  "truthy a \<Longrightarrow> js_or_default a d = the a"
  by (cases a) (auto simp: js_or_default_def)

lemma js_or_default_falsy [js_simps]:
  "\<not> truthy a \<Longrightarrow> js_or_default a d = d"
  by (cases a) (auto simp: js_or_default_def)

subsection \<open>Numbers\<close>

lemma bit_len_le_iff: "bit_len n \<le> k \<longleftrightarrow> n < 2 ^ k"
proof (induction n arbitrary: k rule: bit_len.induct)
  case (1 n)
  show ?case
  proof (cases "n = 0")
    case True
    then show ?thesis by (simp add: bit_len.simps)
  next
    case False
    then have eq: "bit_len n = Suc (bit_len (n div 2))"
      by (simp add: bit_len.simps)
    show ?thesis
    proof (cases k)
      case 0
      with False eq show ?thesis by simp
    next
      case (Suc k')
      have "bit_len (n div 2) \<le> k' \<longleftrightarrow> n div 2 < 2 ^ k'"
        using "1.IH" False by blast
      also have "\<dots> \<longleftrightarrow> n < 2 ^ Suc k'"
        by auto
      finally show ?thesis using eq Suc by simp
    qed
  qed
qed

lemma round_double_nat_exact: "n < 2 ^ 53 \<Longrightarrow> round_double_nat n = n"
  using bit_len_le_iff [of n 53] by (simp add: round_double_nat_def)

lemma js_number_exact [js_simps]: "\<bar>i\<bar> < 2 ^ 53 \<Longrightarrow> js_number i = i"
proof -
  assume "\<bar>i\<bar> < 2 ^ 53"
  then have "nat \<bar>i\<bar> < 2 ^ 53" by (simp add: nat_less_iff)
  then have "round_double_nat (nat \<bar>i\<bar>) = nat \<bar>i\<bar>" by (rule round_double_nat_exact)
  then show ?thesis by (simp add: js_number_def sgn_if)
qed

lemma bit_len_eq_Suc: "2 ^ k \<le> n \<Longrightarrow> n < 2 ^ Suc k \<Longrightarrow> bit_len n = Suc k"
  using bit_len_le_iff [of n k] bit_len_le_iff [of n "Suc k"] by simp

lemma round_double_nat_even_54:
  assumes "2 ^ 53 \<le> n" and "n < 2 ^ 54" and "even n"
  shows "round_double_nat n = n"
proof -
  have "bit_len n = 54" using bit_len_eq_Suc [of 53 n] assms(1,2) by simp
  with assms(3) show ?thesis by (simp add: round_double_nat_def)
qed

text \<open>Two timetokens one apart above \<open>2^53\<close> coerce to the same number.\<close>

lemma js_number_beyond_2p53:
  "js_number 9007199254740992 = 9007199254740992"
  "js_number 9007199254740993 = 9007199254740992"
proof -
  have a: "bit_len 9007199254740992 = 54" using bit_len_eq_Suc [of 53] by simp
  have b: "bit_len 9007199254740993 = 54" using bit_len_eq_Suc [of 53] by simp
  show "js_number 9007199254740992 = 9007199254740992"
    using a by (simp add: js_number_def round_double_nat_def)
  show "js_number 9007199254740993 = 9007199254740992"
    using b by (simp add: js_number_def round_double_nat_def)
qed

subsection \<open>Sorting with a key, as \<open>Array.prototype.sort\<close> does\<close>

text \<open>
  \<open>Array.prototype.sort\<close> is stable (ECMAScript 2019), and with a consistent
  comparator its result is the unique sorted permutation that keeps equal
  keys in their input order: the library's \<open>sort_key\<close>, which is stable
  (\<open>sort_key_stable\<close>).
\<close>

lemma sort_key_Nil_iff [simp]: "sort_key f xs = [] \<longleftrightarrow> xs = []"
proof -
  have "length (sort_key f xs) = length xs" by simp
  then show ?thesis by (metis length_0_conv)
qed

lemma sort_key_append_ordered:
  assumes "sorted (map f ys)" and "sorted (map f xs)"
    and "\<forall>y \<in> set ys. \<forall>x \<in> set xs. f y < f x"
  shows "sort_key f (xs @ ys) = ys @ xs"
proof (rule properties_for_sort_key)
  show "mset (ys @ xs) = mset (xs @ ys)" by simp
  show "sorted (map f (ys @ xs))"
    using assms by (auto simp: sorted_append less_imp_le)
  fix k assume "k \<in> set (ys @ xs)"
  show "filter (\<lambda>x. f k = f x) (ys @ xs) = filter (\<lambda>x. f k = f x) (xs @ ys)"
  proof (cases "k \<in> set ys")
    case True
    then have "filter (\<lambda>x. f k = f x) xs = []"
      using assms(3) by (fastforce simp: filter_empty_conv)
    then show ?thesis by simp
  next
    case False
    with \<open>k \<in> set (ys @ xs)\<close> have "k \<in> set xs" by simp
    then have "filter (\<lambda>x. f k = f x) ys = []"
      using assms(3) by (fastforce simp: filter_empty_conv)
    then show ?thesis by simp
  qed
qed

lemma sort_key_sorted_append_single:
  assumes "sorted (map f xs)" and "\<forall>x \<in> set xs. f x \<le> f y"
  shows "sort_key f (xs @ [y]) = xs @ [y]"
  using assms by (simp add: sort_key_id_if_sorted sorted_append)

lemma insort_key_greatest: "\<forall>x \<in> set xs. f x < f y \<Longrightarrow> insort_key f y xs = xs @ [y]"
  by (induction xs) auto

subsection \<open>Deduplication\<close>

lemma set_dedup_first [simp]: "set (dedup_first xs) = set xs"
  by (induction xs rule: dedup_first.induct) auto

lemma distinct_dedup_first [simp]: "distinct (dedup_first xs)"
  by (induction xs rule: dedup_first.induct) auto

subsection \<open>Sorting with a comparator\<close>

lemma mset_js_insert [simp]: "mset (js_insert cmp x ys) = add_mset x (mset ys)"
  by (induction ys) auto

lemma set_js_insert [simp]: "set (js_insert cmp x ys) = insert x (set ys)"
  by (induction ys) auto

lemma sorted_js_insert:
  assumes "cmp_by_key k cmp" and "sorted (map k ys)"
  shows "sorted (map k (js_insert cmp x ys))"
  using assms(2)
proof (induction ys)
  case (Cons y ys)
  then show ?case using assms(1) by (auto simp: cmp_by_key_def not_less)
qed simp

lemma filter_js_insert:
  assumes "cmp_by_key k cmp" and "sorted (map k ys)"
  shows "filter (\<lambda>z. k a = k z) (js_insert cmp x ys) = filter (\<lambda>z. k a = k z) (ys @ [x])"
  using assms(2)
proof (induction ys)
  case (Cons y ys)
  show ?case
  proof (cases "0 < cmp y x")
    case True
    then have "k x < k y" using assms(1) by (simp add: cmp_by_key_def)
    with Cons.prems have "\<forall>z \<in> set (y # ys). k x < k z" by auto
    then have "k a = k x \<Longrightarrow> filter (\<lambda>z. k a = k z) (y # ys) = []"
      by (auto simp: filter_empty_conv)
    with True show ?thesis by auto
  next
    case False
    let ?P = "\<lambda>z. k a = k z"
    have ih: "filter ?P (js_insert cmp x ys) = filter ?P (ys @ [x])"
      using Cons by simp
    from False have "js_insert cmp x (y # ys) = y # js_insert cmp x ys" by simp
    then show ?thesis by (simp only: filter.simps(2) append_Cons ih)
  qed
qed simp

lemma js_insert_sort_key:
  assumes "cmp_by_key k cmp"
  shows "js_insert cmp x (sort_key k xs) = sort_key k (xs @ [x])"
proof (rule properties_for_sort_key [symmetric])
  show "mset (js_insert cmp x (sort_key k xs)) = mset (xs @ [x])" by simp
  show "sorted (map k (js_insert cmp x (sort_key k xs)))"
    using assms by (simp add: sorted_js_insert)
  fix a
  have "filter (\<lambda>z. k a = k z) (sort_key k xs) = filter (\<lambda>z. k a = k z) xs"
    using sort_key_stable [of k "k a" xs] by (simp add: eq_commute)
  then show "filter (\<lambda>z. k a = k z) (js_insert cmp x (sort_key k xs)) = filter (\<lambda>z. k a = k z) (xs @ [x])"
    using filter_js_insert [OF assms, of "sort_key k xs" a x] by simp
qed

lemma js_sort_snoc [simp]: "js_sort cmp (xs @ [x]) = js_insert cmp x (js_sort cmp xs)"
  by (simp add: js_sort_def)

lemma js_sort_sort_key:
  assumes "cmp_by_key k cmp"
  shows "js_sort cmp xs = sort_key k xs"
proof (induction xs rule: rev_induct)
  case Nil
  then show ?case by (simp add: js_sort_def)
next
  case (snoc x xs)
  then show ?case using js_insert_sort_key [OF assms] by simp
qed

subsection \<open>Numbers as strings\<close>

lemma eq_char_of_iff: "(c = char_of n) \<longleftrightarrow> (of_char c :: nat) = n mod 256"
  by (metis char_of_char of_char_of)

lemma char_of_eq_iff: "(char_of n = c) \<longleftrightarrow> (of_char c :: nat) = n mod 256"
  by (metis char_of_char of_char_of)

lemma digit_val_dec: "d < 10 \<Longrightarrow> digit_val 10 (char_of (48 + d)) = Some d"
  by (simp add: digit_val_def Let_def of_char_of)

lemma digits_value_snoc [simp]: "digits_value r (ds @ [c]) = digits_value r ds * r + (case digit_val r c of Some d \<Rightarrow> d | None \<Rightarrow> 0)"
  by (simp add: digits_value_def)

lemma digits_value_show_nat: "digits_value 10 (show_nat n) = n"
  by (induction n rule: show_nat.induct) (subst show_nat.simps, simp add: digit_val_dec digits_value_def)

lemma show_nat_ne [simp]: "show_nat n \<noteq> []"
  by (subst show_nat.simps) simp

lemma dec_digit_facts:
  assumes "dec_digit c"
  shows "\<not> js_whitespace c" "c \<noteq> CHR ''-''" "c \<noteq> CHR ''+''" "c \<noteq> CHR ''x''" "c \<noteq> CHR ''X''"
    "digit_val 10 c \<noteq> None" "digit_val 16 c \<noteq> None"
  using assms by (auto simp: dec_digit_def js_whitespace_def digit_val_def Let_def)

lemma show_nat_dec: "list_all dec_digit (show_nat n)"
  by (induction n rule: show_nat.induct) (subst show_nat.simps, auto simp: dec_digit_def of_char_of list_all_iff)

lemma dec_digits_prefix:
  assumes "list_all dec_digit s"
  shows "dropWhile js_whitespace s = s" "strip_sign s = (1, s)" "strip_prefix s = (10, s)"
    "takeWhile (is_digit 10) s = s"
proof -
  have "\<forall>x \<in> set s. is_digit 10 x \<and> \<not> js_whitespace x"
    using assms dec_digit_facts(1,6) unfolding list_all_iff is_digit_def by blast
  then show "dropWhile js_whitespace s = s" "takeWhile (is_digit 10) s = s"
    by (cases s; simp add: takeWhile_eq_all_conv)+
  show "strip_sign s = (1, s)"
    using assms by (auto simp: strip_sign_def dec_digit_def split: list.split)
  show "strip_prefix s = (10, s)"
    using assms by (auto simp: strip_prefix_def dec_digit_def split: list.split)
qed

lemma parse_int_digits:
  assumes "s \<noteq> []" and "list_all dec_digit s"
  shows "parse_int s = Some (js_number (int (digits_value 10 s)))"
  using assms by (simp add: parse_int_def dec_digits_prefix)

lemma parse_int_show_int: "parse_int (show_int i) = Some (js_number i)"
proof (cases "i < 0")
  case True
  let ?s = "show_nat (nat (- i))"
  have "\<not> js_whitespace CHR ''-''"
    by (simp add: js_whitespace_def)
  moreover have "strip_sign (CHR ''-'' # ?s) = (-1, ?s)" by (simp add: strip_sign_def)
  ultimately show ?thesis
    using True show_nat_dec [of "nat (- i)"]
    by (simp add: show_int_def parse_int_def dec_digits_prefix digits_value_show_nat)
next
  case False
  then show ?thesis
    using parse_int_digits [OF show_nat_ne show_nat_dec] by (simp add: show_int_def digits_value_show_nat)
qed

subsection \<open>Object keys\<close>

lemma set_object_keys [simp]: "set (object_keys kvs) = fst ` set kvs"
  by (auto simp: object_keys_def Let_def)

lemma distinct_object_keys: "distinct (map fst kvs) \<Longrightarrow> distinct (object_keys kvs)"
  by (auto simp: object_keys_def Let_def distinct_sort)

end
