(* ===== verification/Message.thy ===== *)
theory Message
  imports Prelude
begin

text \<open>
  The message data shared by both message-list implementations
  (\<open>MessageListMessage\<close> and \<open>MessageListUser\<close> of
  \<open>src/src/message-list/message-list.tsx\<close>): a message with its timetoken,
  publisher and message actions, the sender a message is attributed to, and
  the key its list is sorted by.
\<close>

text \<open>
  \<open>actions\<close> is the nested object \<open>{[type]: {[value]: [{uuid, actionTimetoken}]}}\<close>;
  its keys are enumerated in insertion order (\<open>Object.keys\<close>), so both levels
  are association lists.
\<close>

record action_entry =
  act_uuid :: uuid
  action_tt :: timetoken

type_synonym action_values = "(string \<times> action_entry list) list"
type_synonym msg_actions = "(string \<times> action_values) list"

record user =
  user_id :: uuid
  user_name :: "string option"
  profile_url :: "string option"

text \<open>
  An attachment of a message (\<open>ImageAttachment | LinkAttachment\<close>), by the
  fields \<open>renderAttachment\<close> reads: its \<open>type\<close>, \<open>image?.source\<close>,
  \<open>provider?.name\<close>, \<open>provider?.url\<close>, \<open>icon?.source\<close>, \<open>title\<close> and
  \<open>description\<close>.
\<close>

record attachment =
  att_type :: string
  att_image :: "string option"
  att_provider_name :: "string option"
  att_provider_url :: "string option"
  att_icon :: "string option"
  att_title :: "string option"
  att_description :: "string option"

text \<open>
  A message: its channel, the payload \<open>message.message\<close> (\<open>text\<close>, the
  optional \<open>sender\<close> metadata and \<open>attachments\<close>), the timetoken, the
  publisher and uuid, and the reactions.
\<close>

record message =
  msg_channel :: channel_id
  msg_text :: string
  msg_sender :: "user option"
  msg_attachments :: "attachment list"
  timetoken :: timetoken
  publisher :: "uuid option"
  m_uuid :: "uuid option"
  actions :: msg_actions

text \<open>\<open>message.uuid || message.publisher || ""\<close>: the sender a message is shown for.\<close>

definition message_sender :: "message \<Rightarrow> uuid" where
  "message_sender m = js_or_default (js_or (m_uuid m) (publisher m)) ''''"

text \<open>
  The sort key of \<open>(a, b) => (a.timetoken as number) - (b.timetoken as number)\<close>:
  the timetoken coerced to a JavaScript number.
\<close>

definition msg_key :: "message \<Rightarrow> int" where
  "msg_key m = js_number (timetoken m)"

text \<open>\<open>users.find((u) => u.id === uuid)\<close>.\<close>

definition find_user :: "user list \<Rightarrow> uuid \<Rightarrow> user option" where
  "find_user us i = find (\<lambda>u. user_id u = i) us"

text \<open>A message with only its channel and timetoken set, for concrete scenarios.\<close>

definition sample_message :: "channel_id \<Rightarrow> timetoken \<Rightarrow> message" where
  "sample_message c t =
     \<lparr>msg_channel = c, msg_text = '''', msg_sender = None, msg_attachments = [], timetoken = t,
      publisher = None, m_uuid = None, actions = []\<rparr>"

lemma msg_key_exact [js_simps]: "\<bar>timetoken m\<bar> < 2 ^ 53 \<Longrightarrow> msg_key m = timetoken m"
  by (simp add: msg_key_def js_number_exact)

lemma sorted_msg_key_exact:
  assumes "\<forall>m \<in> set ms. \<bar>timetoken m\<bar> < 2 ^ 53"
  shows "map msg_key ms = map timetoken ms"
  using assms by (simp add: msg_key_exact)

lemma message_sender_uuid [js_simps]:
  "m_uuid m = Some u \<Longrightarrow> u \<noteq> [] \<Longrightarrow> message_sender m = u"
  by (simp add: message_sender_def js_or_def js_or_default_def)

lemma find_user_Some: "find_user us i = Some u \<Longrightarrow> u \<in> set us \<and> user_id u = i"
  by (auto simp: find_user_def find_Some_iff)

end
