(* ===== verification/Timeline.thy ===== *)
theory Timeline
  imports Message
begin

text \<open>
  The hooks-based \<open>MessageList\<close> of \<open>lib/src/message-list/message-list.tsx\<close>:
  the message timeline of the current channel, its history pagination, its
  unread counter and its scroll state. The component keeps its own state in
  \<open>useState\<close> hooks and reads the channel, the channel's messages and the
  pagination flag from Recoil atoms; the model puts both in one record.
  The per-channel message store behind \<open>CurrentChannelMessagesAtom\<close> and the
  live-message listener that fills it live outside \<open>src/\<close> and are modelled
  from the specification.
\<close>

section \<open>State\<close>

record ml_props =
  fetch_messages :: nat
  enable_reactions :: bool

record ml_state =
  cur_channel :: channel_id
  store :: "channel_id \<Rightarrow> message list"
  pagination_end :: bool
  scrolled_bottom :: bool
  prev_messages :: "message list"
  unread :: int
  fetching :: bool
  picker_shown :: bool
  reacting_to :: "timetoken option"

definition cur_messages :: "ml_state \<Rightarrow> message list" where
  "cur_messages s = store s (cur_channel s)"

text \<open>\<open>response.channels\<close>: the pages of a history response, keyed by channel.\<close>

type_synonym fetch_response = "(channel_id \<times> message list) list"

datatype fetch_error = FetchFailed

definition page_of :: "fetch_response \<Rightarrow> channel_id \<Rightarrow> message list" where
  "page_of r c = (case map_of r c of Some ms \<Rightarrow> ms | None \<Rightarrow> [])"

section \<open>Event handlers\<close>

text \<open>
  \<open>handleHistoryFetch\<close>: the page for the channel current when the response is
  handled is concatenated to the current messages and the whole is sorted by
  timetoken; nothing is deduplicated. The pagination flag is recomputed from
  the page's length.
\<close>

definition handle_history_fetch :: "ml_props \<Rightarrow> fetch_response \<Rightarrow> ml_state \<Rightarrow> ml_state" where
  "handle_history_fetch p r s =
     (let ch = cur_channel s;
          new = page_of r ch;
          all = sort_key msg_key (store s ch @ new)
      in s\<lparr>picker_shown := False,
           prev_messages := all,
           store := (store s)(ch := all),
           pagination_end := (all = [] \<or> length new \<noteq> fetch_messages p)\<rparr>)"

text \<open>\<open>handleBottomScroll\<close>: reaching the bottom clears the unread counter.\<close>

definition handle_bottom_scroll :: "bool \<Rightarrow> ml_state \<Rightarrow> ml_state" where
  "handle_bottom_scroll b s =
     (let s1 = (if b then s\<lparr>unread := 0\<rparr> else s) in s1\<lparr>scrolled_bottom := b\<rparr>)"

text \<open>
  The effect on \<open>[messages]\<close>: messages that arrived since the last render
  (\<open>messages.length - prevMessages.length\<close>) are added to the unread counter
  when the list is not scrolled to the bottom.
\<close>

definition messages_effect :: "ml_state \<Rightarrow> ml_state" where
  "messages_effect s =
     (if cur_messages s = [] then s
      else let d = int (length (cur_messages s)) - int (length (prev_messages s));
               s1 = (if \<not> scrolled_bottom s \<and> d \<noteq> 0 then s\<lparr>unread := unread s + d\<rparr> else s)
           in s1\<lparr>prev_messages := cur_messages s\<rparr>)"

text \<open>The auto-scroll signal of the same effect (\<open>if (scrolledBottom) scrollToBottom()\<close>).\<close>

definition auto_scroll :: "ml_state \<Rightarrow> bool" where
  "auto_scroll s \<longleftrightarrow> cur_messages s \<noteq> [] \<and> scrolled_bottom s"

section \<open>History fetches\<close>

datatype fetch_kind = Initial | More

record fetch_request =
  req_kind :: fetch_kind
  req_channel :: channel_id
  req_count :: nat
  req_start :: "timetoken option"

text \<open>
  \<open>fetchHistory\<close>, up to its \<open>await\<close>: nothing when history is disabled,
  otherwise the loading flag is set and a request for the newest page of the
  current channel is issued.
\<close>

definition fetch_history_start :: "ml_props \<Rightarrow> ml_state \<Rightarrow> ml_state \<times> fetch_request option" where
  "fetch_history_start p s =
     (if fetch_messages p = 0 then (s, None)
      else (s\<lparr>fetching := True\<rparr>,
            Some \<lparr>req_kind = Initial, req_channel = cur_channel s,
                  req_count = fetch_messages p, req_start = None\<rparr>))"

text \<open>\<open>fetchHistory\<close>, after its \<open>await\<close>: the response is handled, or the error reported; \<open>finally\<close> clears the loading flag.\<close>

definition fetch_history_finish ::
  "ml_props \<Rightarrow> fetch_error + fetch_response \<Rightarrow> ml_state \<Rightarrow> ml_state" where
  "fetch_history_finish p res s =
     (case res of
        Inl _ \<Rightarrow> s\<lparr>fetching := False\<rparr>
      | Inr r \<Rightarrow> (handle_history_fetch p r s)\<lparr>fetching := False\<rparr>)"

text \<open>
  \<open>fetchMoreHistory\<close>, up to its \<open>await\<close>: nothing when the channel has no
  messages; otherwise a request for the page before the oldest message
  (\<open>messages[0].timetoken || undefined\<close>). No loading flag is checked or set.
\<close>

definition fetch_more_request :: "ml_props \<Rightarrow> ml_state \<Rightarrow> fetch_request option" where
  "fetch_more_request p s =
     (case cur_messages s of
        [] \<Rightarrow> None
      | m # _ \<Rightarrow> Some \<lparr>req_kind = More, req_channel = cur_channel s,
                       req_count = fetch_messages p,
                       req_start = (if timetoken m = 0 then None else Some (timetoken m))\<rparr>)"

definition fetch_more_finish ::
  "ml_props \<Rightarrow> fetch_error + fetch_response \<Rightarrow> ml_state \<Rightarrow> ml_state" where
  "fetch_more_finish p res s =
     (case res of Inl _ \<Rightarrow> s | Inr r \<Rightarrow> handle_history_fetch p r s)"

section \<open>The component over time\<close>

text \<open>
  The state of the component together with the history fetches in flight.
  A fetch is issued synchronously, up to its \<open>await\<close>, and its response is
  handled later, in any order with the other events.
\<close>

record ml_sys =
  ui :: ml_state
  inflight :: "fetch_request list"

datatype ml_event =
    Switch channel_id
  | Live message
  | Scroll bool
  | SpinnerVisible
  | Respond nat "fetch_error + fetch_response"

text \<open>The spinner that triggers \<open>fetchMoreHistory\<close> is rendered only while history is enabled and not exhausted.\<close>

definition spinner_shown :: "ml_props \<Rightarrow> ml_state \<Rightarrow> bool" where
  "spinner_shown p s \<longleftrightarrow> fetch_messages p \<noteq> 0 \<and> \<not> pagination_end s"

text \<open>The effect on \<open>[channel]\<close>: fetch the newest page when the channel has no messages yet.\<close>

definition channel_effect :: "ml_props \<Rightarrow> ml_state \<Rightarrow> ml_state \<times> fetch_request option" where
  "channel_effect p s =
     (if cur_channel s = [] then (s, None)
      else if cur_messages s = [] then fetch_history_start p s
      else (s, None))"

definition opt_list :: "'a option \<Rightarrow> 'a list" where
  "opt_list x = (case x of None \<Rightarrow> [] | Some a \<Rightarrow> [a])"

text \<open>
  A channel switch renders the component with the new channel; the effects
  on \<open>[channel]\<close> and \<open>[messages]\<close> run in that order.
\<close>

definition open_channel :: "ml_props \<Rightarrow> channel_id \<Rightarrow> ml_sys \<Rightarrow> ml_sys" where
  "open_channel p c S =
     (let (s, req) = channel_effect p ((ui S)\<lparr>cur_channel := c\<rparr>)
      in \<lparr>ui = messages_effect s, inflight = inflight S @ opt_list req\<rparr>)"

text \<open>
  The live-message listener (outside \<open>src/\<close>, from the specification): a
  message whose timetoken is not yet held is inserted at its sorted position
  in its channel's list.
\<close>

definition insert_live :: "message \<Rightarrow> message list \<Rightarrow> message list" where
  "insert_live m ms =
     (if timetoken m \<in> set (map timetoken ms) then ms else insort_key msg_key m ms)"

definition deliver_live :: "message \<Rightarrow> ml_sys \<Rightarrow> ml_sys" where
  "deliver_live m S =
     (let c = msg_channel m; s = ui S;
          s1 = s\<lparr>store := (store s)(c := insert_live m (store s c))\<rparr>
      in S\<lparr>ui := (if c = cur_channel s then messages_effect s1 else s1)\<rparr>)"

definition remove_nth :: "nat \<Rightarrow> 'a list \<Rightarrow> 'a list" where
  "remove_nth i xs = take i xs @ drop (Suc i) xs"

text \<open>The response to the \<open>i\<close>-th fetch in flight arrives.\<close>

definition respond :: "ml_props \<Rightarrow> nat \<Rightarrow> fetch_error + fetch_response \<Rightarrow> ml_sys \<Rightarrow> ml_sys" where
  "respond p i res S =
     (if i < length (inflight S) then
        let r = inflight S ! i; s = ui S;
            s1 = (case req_kind r of
                    Initial \<Rightarrow> fetch_history_finish p res s
                  | More \<Rightarrow> fetch_more_finish p res s)
        in \<lparr>ui = (if isl res then s1 else messages_effect s1),
            inflight = remove_nth i (inflight S)\<rparr>
      else S)"

fun ml_event_step :: "ml_props \<Rightarrow> ml_sys \<Rightarrow> ml_event \<Rightarrow> ml_sys" where
  "ml_event_step p S (Switch c) = (if c = cur_channel (ui S) then S else open_channel p c S)"
| "ml_event_step p S (Live m) = deliver_live m S"
| "ml_event_step p S (Scroll b) = S\<lparr>ui := handle_bottom_scroll b (ui S)\<rparr>"
| "ml_event_step p S SpinnerVisible =
     (if spinner_shown p (ui S) then
        (case fetch_more_request p (ui S) of
           None \<Rightarrow> S
         | Some r \<Rightarrow> S\<lparr>inflight := inflight S @ [r]\<rparr>)
      else S)"
| "ml_event_step p S (Respond i res) = respond p i res S"

definition ml_run :: "ml_props \<Rightarrow> ml_sys \<Rightarrow> ml_event list \<Rightarrow> ml_sys" where
  "ml_run p S es = foldl (ml_event_step p) S es"

text \<open>
  The component as first mounted on channel \<open>c\<close>: the atoms' initial values
  (an empty store, pagination not ended) are those of the specification.
\<close>

definition init_state :: "channel_id \<Rightarrow> ml_state" where
  "init_state c =
     \<lparr>cur_channel = c, store = (\<lambda>_. []), pagination_end = False, scrolled_bottom = True,
      prev_messages = [], unread = 0, fetching = False, picker_shown = False,
      reacting_to = None\<rparr>"

definition mount :: "ml_props \<Rightarrow> channel_id \<Rightarrow> ml_sys" where
  "mount p c =
     (let (s, req) = channel_effect p (init_state c)
      in \<lparr>ui = messages_effect s, inflight = opt_list req\<rparr>)"

inductive ml_reach :: "ml_props \<Rightarrow> ml_sys \<Rightarrow> bool" for p where
  mounted: "ml_reach p (mount p c)"
| step: "ml_reach p S \<Longrightarrow> ml_reach p (ml_event_step p S e)"

section \<open>Invariant and fixtures\<close>

text \<open>Every channel's message list is sorted by the comparator's key.\<close>

definition stores_sorted :: "ml_state \<Rightarrow> bool" where
  "stores_sorted s \<longleftrightarrow> (\<forall>c. sorted (map msg_key (store s c)))"

text \<open>Props of a list that fetches pages of \<open>n\<close> messages, for concrete scenarios.\<close>

definition paged_props :: "nat \<Rightarrow> ml_props" where
  "paged_props n = \<lparr>fetch_messages = n, enable_reactions = False\<rparr>"

section \<open>Lemmas\<close>

subsection \<open>Frame and evaluation rules\<close>

lemma cur_channel_handle_history_fetch [simp]:
  "cur_channel (handle_history_fetch p r s) = cur_channel s"
  by (simp add: handle_history_fetch_def Let_def)

lemma cur_messages_handle_history_fetch [simp]:
  "cur_messages (handle_history_fetch p r s) =
     sort_key msg_key (cur_messages s @ page_of r (cur_channel s))"
  by (simp add: handle_history_fetch_def cur_messages_def Let_def)

lemma store_frame [simp]:
  "store (messages_effect s) = store s"
  "store (handle_bottom_scroll b s) = store s"
  "store (fst (fetch_history_start p s)) = store s"
  "store (fst (channel_effect p s)) = store s"
  by (simp_all add: messages_effect_def Let_def handle_bottom_scroll_def
      fetch_history_start_def channel_effect_def)

lemmas ml_eval_defs = ml_run_def mount_def channel_effect_def init_state_def
  fetch_history_start_def cur_messages_def messages_effect_def opt_list_def respond_def
  fetch_history_finish_def fetch_more_finish_def fetch_more_request_def spinner_shown_def
  deliver_live_def insert_live_def open_channel_def handle_bottom_scroll_def
  handle_history_fetch_def page_of_def msg_key_def sample_message_def js_number_exact
  Let_def remove_nth_def paged_props_def

lemma ml_reach_run: "ml_reach p S \<Longrightarrow> ml_reach p (ml_run p S es)"
proof (induction es arbitrary: S rule: rev_induct)
  case Nil
  then show ?case by (simp add: ml_run_def)
next
  case (snoc e es)
  then show ?case by (simp add: ml_run_def ml_reach.step)
qed

lemma ml_reach_mount_run: "ml_reach p (ml_run p (mount p c) es)"
  by (rule ml_reach_run) (rule ml_reach.mounted)

subsection \<open>Every step keeps the channel lists sorted\<close>

lemma stores_sorted_frame:
  "store t = store s \<Longrightarrow> stores_sorted s \<Longrightarrow> stores_sorted t"
  by (simp add: stores_sorted_def)

lemma stores_sorted_handle_history_fetch:
  "stores_sorted s \<Longrightarrow> stores_sorted (handle_history_fetch p r s)"
  by (simp add: stores_sorted_def handle_history_fetch_def Let_def)

lemma sorted_insert_live:
  "sorted (map msg_key ms) \<Longrightarrow> sorted (map msg_key (insert_live m ms))"
  by (simp add: insert_live_def sorted_insort_key)

lemma stores_sorted_open_channel:
  "stores_sorted (ui S) \<Longrightarrow> stores_sorted (ui (open_channel p c S))"
  by (simp add: open_channel_def stores_sorted_def prod.case_eq_if)

lemma stores_sorted_deliver_live:
  "stores_sorted (ui S) \<Longrightarrow> stores_sorted (ui (deliver_live m S))"
  by (simp add: deliver_live_def stores_sorted_def Let_def sorted_insert_live)

lemma stores_sorted_finish:
  "stores_sorted s \<Longrightarrow> stores_sorted (fetch_history_finish p res s)"
  "stores_sorted s \<Longrightarrow> stores_sorted (fetch_more_finish p res s)"
  by (auto simp: fetch_history_finish_def fetch_more_finish_def
      stores_sorted_handle_history_fetch split: sum.splits intro: stores_sorted_frame)

lemma stores_sorted_respond:
  "stores_sorted (ui S) \<Longrightarrow> stores_sorted (ui (respond p i res S))"
  by (auto simp: respond_def Let_def stores_sorted_finish split: fetch_kind.splits
      intro: stores_sorted_frame)

lemma stores_sorted_step:
  "stores_sorted (ui S) \<Longrightarrow> stores_sorted (ui (ml_event_step p S e))"
  by (cases e) (auto simp: stores_sorted_open_channel stores_sorted_deliver_live
      stores_sorted_respond intro: stores_sorted_frame split: option.splits)

lemma stores_sorted_mount: "stores_sorted (ui (mount p c))"
  by (simp add: mount_def stores_sorted_def init_state_def prod.case_eq_if)

subsection \<open>History fetches in flight\<close>

lemma set_remove_nth: "set (remove_nth i xs) \<subseteq> set xs"
  by (auto simp: remove_nth_def dest: in_set_takeD in_set_dropD)

lemma inflight_respond_subset: "set (inflight (respond p i res S)) \<subseteq> set (inflight S)"
  by (auto simp: respond_def Let_def dest: set_remove_nth [THEN subsetD])

lemma fetch_more_request_kind:
  "fetch_more_request p s = Some r \<Longrightarrow> req_kind r = More"
  by (auto simp: fetch_more_request_def split: list.splits)

lemma channel_effect_kind:
  "snd (channel_effect p s) = Some r \<Longrightarrow> req_kind r = Initial"
  by (auto simp: channel_effect_def fetch_history_start_def split: if_splits)

section \<open>Properties of the message timeline\<close>

text \<open>
  C1: Merging a history page always leaves the current channel's messages sorted by the comparator's key (the timetoken as a JavaScript number).
\<close>

theorem handle_history_fetch_sorted:
  "sorted (map msg_key (cur_messages (handle_history_fetch p r s)))"
  by simp

text \<open>
  C2: In every state the component can reach from mounting, through channel switches, live messages, scrolling, page requests and responses in any order, every channel's message list is sorted by the comparator's key.
\<close>

theorem ml_reach_stores_sorted:
  "ml_reach p S \<Longrightarrow> \<forall>c. sorted (map msg_key (store (ui S) c))"
proof (induction rule: ml_reach.induct)
  case (mounted c)
  show ?case using stores_sorted_mount [of p c] by (simp add: stores_sorted_def)
next
  case (step S e)
  then have "stores_sorted (ui S)" by (simp add: stores_sorted_def)
  then have "stores_sorted (ui (ml_event_step p S e))" by (rule stores_sorted_step)
  then show ?case by (simp add: stores_sorted_def)
qed

theorem ml_reach_stores_sorted_witness:
  "let S = ml_run (paged_props 100) (mount (paged_props 100) ''c'')
             [Respond 0 (Inr [(''c'', [sample_message ''c'' 200, sample_message ''c'' 100])])]
   in ml_reach (paged_props 100) S \<and> (\<forall>c. sorted (map msg_key (store (ui S) c)))
      \<and> map timetoken (store (ui S) ''c'') = [100, 200]"
proof -
  let ?S = "ml_run (paged_props 100) (mount (paged_props 100) ''c'')
             [Respond 0 (Inr [(''c'', [sample_message ''c'' 200, sample_message ''c'' 100])])]"
  have r: "ml_reach (paged_props 100) ?S" by (rule ml_reach_mount_run)
  have "map timetoken (store (ui ?S) ''c'') = [100, 200]" by (simp add: ml_eval_defs)
  with r ml_reach_stores_sorted [OF r] show ?thesis by simp
qed

text \<open>
  C3: A history merge keeps every message it was given: the merged list is the multiset union of the held messages and the page; nothing is deduplicated.
\<close>

theorem handle_history_fetch_mset:
  "mset (cur_messages (handle_history_fetch p r s)) =
     mset (cur_messages s) + mset (page_of r (cur_channel s))"
  by simp


text \<open>
  C5: When the page is sorted and entirely older than the held, sorted messages, the merge prepends it: the specification's loadOlderPage prepend.
\<close>

theorem handle_history_fetch_prepends:
  assumes "sorted (map msg_key (cur_messages s))"
    and "sorted (map msg_key (page_of r (cur_channel s)))"
    and "\<forall>n \<in> set (page_of r (cur_channel s)). \<forall>m \<in> set (cur_messages s). msg_key n < msg_key m"
  shows "cur_messages (handle_history_fetch p r s) = page_of r (cur_channel s) @ cur_messages s"
  using assms by (simp add: sort_key_append_ordered)

theorem handle_history_fetch_prepends_witness:
  "let s = (init_state ''c'')\<lparr>store := (\<lambda>_. [])(''c'' := [sample_message ''c'' 300])\<rparr>;
       r = [(''c'', [sample_message ''c'' 100, sample_message ''c'' 200])]
   in sorted (map msg_key (cur_messages s)) \<and> sorted (map msg_key (page_of r (cur_channel s)))
      \<and> (\<forall>n \<in> set (page_of r (cur_channel s)). \<forall>m \<in> set (cur_messages s). msg_key n < msg_key m)
      \<and> cur_messages (handle_history_fetch (paged_props 2) r s) = page_of r (cur_channel s) @ cur_messages s"
proof -
  let ?s = "(init_state ''c'')\<lparr>store := (\<lambda>_. [])(''c'' := [sample_message ''c'' 300])\<rparr>"
  let ?r = "[(''c'', [sample_message ''c'' 100, sample_message ''c'' 200])]"
  have h1: "sorted (map msg_key (cur_messages ?s))" by (simp add: ml_eval_defs)
  have h2: "sorted (map msg_key (page_of ?r (cur_channel ?s)))" by (simp add: ml_eval_defs)
  have h3: "\<forall>n \<in> set (page_of ?r (cur_channel ?s)). \<forall>m \<in> set (cur_messages ?s). msg_key n < msg_key m"
    by (simp add: ml_eval_defs)
  show ?thesis using handle_history_fetch_prepends [OF h1 h2 h3] h1 h2 h3 by simp
qed



text \<open>
  C7: A new live message for the current channel, delivered while the list is not scrolled to the bottom, is inserted and raises the unread counter by exactly one.
\<close>

theorem deliver_live_unread:
  assumes "msg_channel m = cur_channel (ui S)" and "\<not> scrolled_bottom (ui S)"
    and "timetoken m \<notin> set (map timetoken (cur_messages (ui S)))"
    and "prev_messages (ui S) = cur_messages (ui S)"
  shows "unread (ui (deliver_live m S)) = unread (ui S) + 1
         \<and> m \<in> set (cur_messages (ui (deliver_live m S)))"
  using assms
  by (simp add: deliver_live_def insert_live_def messages_effect_def cur_messages_def
      Let_def set_insort_key)

theorem deliver_live_unread_witness:
  "let S = ml_run (paged_props 100) (mount (paged_props 100) ''c'')
             [Respond 0 (Inr [(''c'', [sample_message ''c'' 100, sample_message ''c'' 200])]),
              Scroll False];
       m = sample_message ''c'' 300
   in msg_channel m = cur_channel (ui S) \<and> \<not> scrolled_bottom (ui S)
      \<and> timetoken m \<notin> set (map timetoken (cur_messages (ui S)))
      \<and> prev_messages (ui S) = cur_messages (ui S)
      \<and> unread (ui (deliver_live m S)) = 1
      \<and> map timetoken (cur_messages (ui (deliver_live m S))) = [100, 200, 300]"
proof -
  let ?S = "ml_run (paged_props 100) (mount (paged_props 100) ''c'')
             [Respond 0 (Inr [(''c'', [sample_message ''c'' 100, sample_message ''c'' 200])]),
              Scroll False]"
  let ?m = "sample_message ''c'' 300"
  have h1: "msg_channel ?m = cur_channel (ui ?S)" by (simp add: ml_eval_defs)
  have h2: "\<not> scrolled_bottom (ui ?S)" by (simp add: ml_eval_defs)
  have h3: "timetoken ?m \<notin> set (map timetoken (cur_messages (ui ?S)))" by (simp add: ml_eval_defs)
  have h4: "prev_messages (ui ?S) = cur_messages (ui ?S)" by (simp add: ml_eval_defs)
  have u: "unread (ui ?S) = 0" by (simp add: ml_eval_defs)
  have l: "map timetoken (cur_messages (ui (deliver_live ?m ?S))) = [100, 200, 300]"
    by (simp add: ml_eval_defs)
  show ?thesis using deliver_live_unread [OF h1 h2 h3 h4] h1 h2 h3 h4 u l by simp
qed

text \<open>
  A scroll event sets the at-bottom flag to its argument, clears the unread counter when it is true, keeps it otherwise, and leaves the messages alone.
\<close>

theorem handle_bottom_scroll_spec:
  "scrolled_bottom (handle_bottom_scroll b s) = b
   \<and> unread (handle_bottom_scroll b s) = (if b then 0 else unread s)
   \<and> cur_messages (handle_bottom_scroll b s) = cur_messages s
   \<and> pagination_end (handle_bottom_scroll b s) = pagination_end s"
  by (simp add: handle_bottom_scroll_def cur_messages_def)

text \<open>
  C9: A request for an older page is issued only while history is enabled, pagination has not ended and the channel has messages: no fetch once history is exhausted.
\<close>

theorem more_request_needs_spinner:
  assumes "r \<in> set (inflight (ml_event_step p S e))" and "r \<notin> set (inflight S)"
    and "req_kind r = More"
  shows "fetch_messages p \<noteq> 0 \<and> \<not> pagination_end (ui S) \<and> cur_messages (ui S) \<noteq> []"
proof (cases e)
  case (Switch c)
  with assms show ?thesis
    by (auto simp: open_channel_def opt_list_def prod.case_eq_if split: if_splits option.splits
        dest: channel_effect_kind [OF sym])
next
  case (Respond i res)
  with assms(1,2) inflight_respond_subset [of p i res S] show ?thesis by auto
next
  case SpinnerVisible
  with assms show ?thesis
    by (auto simp: spinner_shown_def fetch_more_request_def split: if_splits option.splits list.splits)
qed (use assms in \<open>auto simp: deliver_live_def Let_def\<close>)

theorem more_request_needs_spinner_witness:
  "let S = ml_run (paged_props 2) (mount (paged_props 2) ''c'')
             [Respond 0 (Inr [(''c'', [sample_message ''c'' 100, sample_message ''c'' 200])])];
       r = \<lparr>req_kind = More, req_channel = ''c'', req_count = 2, req_start = Some 100\<rparr>
   in r \<in> set (inflight (ml_event_step (paged_props 2) S SpinnerVisible)) \<and> r \<notin> set (inflight S)
      \<and> req_kind r = More
      \<and> fetch_messages (paged_props 2) \<noteq> 0 \<and> \<not> pagination_end (ui S) \<and> cur_messages (ui S) \<noteq> []"
proof -
  let ?S = "ml_run (paged_props 2) (mount (paged_props 2) ''c'')
             [Respond 0 (Inr [(''c'', [sample_message ''c'' 100, sample_message ''c'' 200])])]"
  let ?r = "\<lparr>req_kind = More, req_channel = ''c'', req_count = 2, req_start = Some (100::int)\<rparr>"
  have h1: "?r \<in> set (inflight (ml_event_step (paged_props 2) ?S SpinnerVisible))"
    by (simp add: ml_eval_defs)
  have h2: "?r \<notin> set (inflight ?S)" by (simp add: ml_eval_defs)
  have h3: "req_kind ?r = More" by simp
  show ?thesis using more_request_needs_spinner [OF h1 h2 h3] h1 h2 by simp
qed

text \<open>
  C10: Two requests for the same older page can be in flight at once: fetchMoreHistory has no single-flight guard.
\<close>

theorem more_fetches_not_single_flight:
  "\<exists>S. ml_reach (paged_props 2) S \<and> map req_kind (inflight S) = [More, More]
       \<and> map req_start (inflight S) = [Some 100, Some 100]"
proof -
  let ?S = "ml_run (paged_props 2) (mount (paged_props 2) ''c'')
             [Respond 0 (Inr [(''c'', [sample_message ''c'' 100, sample_message ''c'' 200])]),
              SpinnerVisible, SpinnerVisible]"
  have "ml_reach (paged_props 2) ?S" by (rule ml_reach_mount_run)
  moreover have "map req_kind (inflight ?S) = [More, More]
       \<and> map req_start (inflight ?S) = [Some 100, Some 100]"
    by (simp add: ml_eval_defs)
  ultimately show ?thesis by (intro exI [of _ ?S]) simp
qed

text \<open>
  C11: The unread counter can become negative: switching to a channel with fewer messages while not scrolled to the bottom adds the negative length difference.
\<close>

theorem unread_negative_reachable:
  "\<exists>S. ml_reach (paged_props 100) S \<and> unread (ui S) = -1"
proof -
  let ?S = "ml_run (paged_props 100) (mount (paged_props 100) ''a'')
             [Respond 0 (Inr [(''a'', [sample_message ''a'' 100, sample_message ''a'' 200])]),
              Live (sample_message ''b'' 300), Scroll False, Switch ''b'']"
  have "ml_reach (paged_props 100) ?S" by (rule ml_reach_mount_run)
  moreover have "unread (ui ?S) = -1" by (simp add: ml_eval_defs)
  ultimately show ?thesis by blast
qed

text \<open>
  C12: A response for another channel, handled after a switch, merges nothing but marks the current channel's history as exhausted.
\<close>

theorem stale_response_ends_pagination:
  assumes "map_of r (cur_channel s) = None" and "fetch_messages p \<noteq> 0"
    and "sorted (map msg_key (cur_messages s))"
  shows "pagination_end (handle_history_fetch p r s)
         \<and> cur_messages (handle_history_fetch p r s) = cur_messages s"
  using assms by (simp add: handle_history_fetch_def page_of_def cur_messages_def Let_def
      sort_key_id_if_sorted)

theorem stale_response_ends_pagination_witness:
  "let s = (init_state ''b'')\<lparr>store := (\<lambda>_. [])(''b'' := [sample_message ''b'' 5])\<rparr>;
       r = [(''a'', [sample_message ''a'' 100, sample_message ''a'' 200])]
   in map_of r (cur_channel s) = None \<and> fetch_messages (paged_props 2) \<noteq> 0
      \<and> sorted (map msg_key (cur_messages s))
      \<and> pagination_end (handle_history_fetch (paged_props 2) r s)
      \<and> cur_messages (handle_history_fetch (paged_props 2) r s) = cur_messages s"
proof -
  let ?s = "(init_state ''b'')\<lparr>store := (\<lambda>_. [])(''b'' := [sample_message ''b'' 5])\<rparr>"
  let ?r = "[(''a'', [sample_message ''a'' 100, sample_message ''a'' 200])]"
  have h1: "map_of ?r (cur_channel ?s) = None" by (simp add: ml_eval_defs)
  have h2: "fetch_messages (paged_props 2) \<noteq> 0" by (simp add: ml_eval_defs)
  have h3: "sorted (map msg_key (cur_messages ?s))" by (simp add: ml_eval_defs)
  show ?thesis using stale_response_ends_pagination [OF h1 h2 h3] h1 h2 h3 by simp
qed


text \<open>
  C14: When all timetokens are below 2^53 in magnitude, the merged list is sorted by timetoken itself.
\<close>

theorem handle_history_fetch_sorted_exact:
  assumes "\<forall>m \<in> set (cur_messages s @ page_of r (cur_channel s)). \<bar>timetoken m\<bar> < 2 ^ 53"
  shows "sorted (map timetoken (cur_messages (handle_history_fetch p r s)))"
proof -
  have "\<forall>m \<in> set (cur_messages (handle_history_fetch p r s)). \<bar>timetoken m\<bar> < 2 ^ 53"
    using assms by simp
  then have "map msg_key (cur_messages (handle_history_fetch p r s))
           = map timetoken (cur_messages (handle_history_fetch p r s))"
    by (rule sorted_msg_key_exact)
  moreover have "sorted (map msg_key (cur_messages (handle_history_fetch p r s)))"
    by (simp only: cur_messages_handle_history_fetch sorted_sort_key)
  ultimately show ?thesis by metis
qed

theorem handle_history_fetch_sorted_exact_witness:
  "let s = (init_state ''c'')\<lparr>store := (\<lambda>_. [])(''c'' := [sample_message ''c'' 300])\<rparr>;
       r = [(''c'', [sample_message ''c'' 200, sample_message ''c'' 100])]
   in (\<forall>m \<in> set (cur_messages s @ page_of r (cur_channel s)). \<bar>timetoken m\<bar> < 2 ^ 53)
      \<and> map timetoken (cur_messages (handle_history_fetch (paged_props 2) r s)) = [100, 200, 300]
      \<and> sorted (map timetoken (cur_messages (handle_history_fetch (paged_props 2) r s)))"
proof -
  let ?s = "(init_state ''c'')\<lparr>store := (\<lambda>_. [])(''c'' := [sample_message ''c'' 300])\<rparr>"
  let ?r = "[(''c'', [sample_message ''c'' 200, sample_message ''c'' 100])]"
  have h: "\<forall>m \<in> set (cur_messages ?s @ page_of ?r (cur_channel ?s)). \<bar>timetoken m\<bar> < 2 ^ 53"
    by (simp add: ml_eval_defs)
  have e: "map timetoken (cur_messages (handle_history_fetch (paged_props 2) ?r ?s)) = [100, 200, 300]"
    by (simp add: ml_eval_defs)
  show ?thesis using handle_history_fetch_sorted_exact [OF h] h e by simp
qed

text \<open>
  Mounting on a channel and receiving a first page of two messages with page size 100 gives those messages, ends pagination, clears the loading flag and leaves no fetch in flight.
\<close>

theorem open_channel_scenario:
  "let S = ml_run (paged_props 100) (mount (paged_props 100) ''c'')
             [Respond 0 (Inr [(''c'', [sample_message ''c'' 100, sample_message ''c'' 200])])]
   in map timetoken (cur_messages (ui S)) = [100, 200] \<and> pagination_end (ui S)
      \<and> \<not> fetching (ui S) \<and> inflight S = [] \<and> unread (ui S) = 0"
  by (simp add: ml_eval_defs)

end
