(* ===== verification/ClassList.thy ===== *)
theory ClassList
  imports Timeline
begin

text \<open>
  The class-based \<open>MessageList\<close> of \<open>src/src/message-list/message-list.tsx\<close>,
  the earlier implementation of the same component: it keeps the messages, the
  pagination token, the unread counter and the fetched users in React class
  state, reads the client and the channel from \<open>PubNubContext\<close>, and appends
  live messages itself. It shares the message data and the history response of
  the hooks-based list (theories \<open>Message\<close> and \<open>Timeline\<close>).
\<close>

section \<open>State, props and context\<close>

record cl_props =
  disable_user_fetch :: bool
  props_users :: "user list"
  disable_history_fetch :: bool

record cl_state =
  cl_messages :: "message list"
  messages_per_page :: nat
  pagination :: "timetoken option"
  cl_pagination_end :: bool
  cl_scrolled_bottom :: bool
  unread_messages :: nat
  cl_users :: "user list"

text \<open>\<open>PubNubContextProps\<close>: whether a client was provided, and the channel.\<close>

record cl_context =
  has_pubnub :: bool
  ctx_channel :: channel_id

text \<open>The failures of the class list: the two strings \<open>componentDidMount\<close> throws, a rejected fetch, and the \<open>TypeError\<close> of reading \<open>allMessages[0]\<close> of an empty list.\<close>

datatype cl_error = NoContext | EmptyChannel | HistoryFetchFailed | EmptyHistoryTypeError

definition cl_init :: cl_state where
  "cl_init =
     \<lparr>cl_messages = [], messages_per_page = 100, pagination = None, cl_pagination_end = False,
      cl_scrolled_bottom = True, unread_messages = 0, cl_users = []\<rparr>"

section \<open>Handlers\<close>

text \<open>\<open>getUser\<close>: the users passed as props first, then the fetched ones.\<close>

definition cl_get_user :: "cl_props \<Rightarrow> user list \<Rightarrow> uuid \<Rightarrow> user option" where
  "cl_get_user p us i = (case find_user (props_users p) i of Some u \<Rightarrow> Some u | None \<Rightarrow> find_user us i)"

text \<open>
  \<open>handleHistoryFetch\<close>: as in the hooks-based list the page is concatenated and
  sorted, but the new pagination token is read from \<open>allMessages[0]\<close>, which
  throws when both the held messages and the page are empty; the exception
  escapes before \<open>setState\<close>, so the state is unchanged.
\<close>

definition cl_handle_history_fetch ::
  "cl_context \<Rightarrow> fetch_response \<Rightarrow> cl_state \<Rightarrow> cl_error + cl_state" where
  "cl_handle_history_fetch ctx r s =
     (let new = page_of r (ctx_channel ctx);
          all = sort_key msg_key (cl_messages s @ new)
      in case all of
           [] \<Rightarrow> Inl EmptyHistoryTypeError
         | m # _ \<Rightarrow> Inr (s\<lparr>cl_messages := all, pagination := Some (timetoken m),
                             cl_pagination_end := (length new \<noteq> messages_per_page s)\<rparr>))"

text \<open>\<open>handleOnMessage\<close>: the live message is appended to the end of the list; the unread counter grows when the list is not at the bottom.\<close>

definition cl_handle_on_message :: "message \<Rightarrow> cl_state \<Rightarrow> cl_state" where
  "cl_handle_on_message m s =
     (let s1 = s\<lparr>cl_messages := cl_messages s @ [m]\<rparr>
      in if cl_scrolled_bottom s1 then s1 else s1\<lparr>unread_messages := unread_messages s1 + 1\<rparr>)"

definition cl_handle_bottom_scroll :: "bool \<Rightarrow> cl_state \<Rightarrow> cl_state" where
  "cl_handle_bottom_scroll b s =
     (let s1 = (if b then s\<lparr>unread_messages := 0\<rparr> else s) in s1\<lparr>cl_scrolled_bottom := b\<rparr>)"

text \<open>
  The loop of \<open>fetchMessageSenders\<close> over the distinct senders
  (\<open>new Set(messages.map(m => m.uuid || m.publisher))\<close>). \<open>meta\<close> is the user
  metadata service: \<open>None\<close> when it returns no data or rejects. Every exit of the
  loop body is a \<open>return\<close>, so the loop stops at the first sender that is
  missing, already known or has no metadata.
\<close>

fun senders_loop ::
  "cl_props \<Rightarrow> (uuid \<Rightarrow> user option) \<Rightarrow> uuid option list \<Rightarrow> user list \<Rightarrow> user list" where
  "senders_loop p meta [] us = us"
| "senders_loop p meta (u # rest) us =
     (if \<not> truthy u \<or> cl_get_user p us (the u) \<noteq> None then us
      else case meta (the u) of
             None \<Rightarrow> us
           | Some usr \<Rightarrow> senders_loop p meta rest (us @ [usr]))"

definition fetch_message_senders ::
  "cl_props \<Rightarrow> (uuid \<Rightarrow> user option) \<Rightarrow> message list \<Rightarrow> cl_state \<Rightarrow> cl_state" where
  "fetch_message_senders p meta ms s =
     (if disable_user_fetch p then s
      else s\<lparr>cl_users := senders_loop p meta
                (dedup_first (map (\<lambda>m. js_or (m_uuid m) (publisher m)) ms)) (cl_users s)\<rparr>)"

text \<open>\<open>fetchMoreHistory\<close>: the request starts at the stored pagination token; nothing is checked first.\<close>

definition cl_fetch_more_request :: "cl_context \<Rightarrow> cl_state \<Rightarrow> fetch_request" where
  "cl_fetch_more_request ctx s =
     \<lparr>req_kind = More, req_channel = ctx_channel ctx, req_count = messages_per_page s,
      req_start = pagination s\<rparr>"

text \<open>
  \<open>componentDidMount\<close> with the history response it awaits: the context
  checks, the subscription, and the initial history fetch. Every failure is
  caught and logged, so the result is the final state, whether the listener is
  subscribed, and the error reported, if any.
\<close>

definition cl_did_mount ::
  "cl_props \<Rightarrow> cl_context \<Rightarrow> fetch_error + fetch_response \<Rightarrow> cl_state \<Rightarrow>
   cl_state \<times> bool \<times> cl_error option" where
  "cl_did_mount p ctx res s =
     (if \<not> has_pubnub ctx then (s, False, Some NoContext)
      else if ctx_channel ctx = [] then (s, False, Some EmptyChannel)
      else if disable_history_fetch p then (s, True, None)
      else case res of
             Inl _ \<Rightarrow> (s, True, Some HistoryFetchFailed)
           | Inr r \<Rightarrow> (case cl_handle_history_fetch ctx r s of
                         Inl e \<Rightarrow> (s, True, Some e)
                       | Inr s' \<Rightarrow> (s', True, None)))"

section \<open>The list over time\<close>

text \<open>The events that reach the class list once it is mounted: live messages, scroll changes, history responses (a failing one is caught and leaves the state alone).\<close>

datatype cl_event = ClLive message | ClScroll bool | ClHistory fetch_response

fun cl_step :: "cl_context \<Rightarrow> cl_state \<Rightarrow> cl_event \<Rightarrow> cl_state" where
  "cl_step ctx s (ClLive m) = cl_handle_on_message m s"
| "cl_step ctx s (ClScroll b) = cl_handle_bottom_scroll b s"
| "cl_step ctx s (ClHistory r) =
     (case cl_handle_history_fetch ctx r s of Inl _ \<Rightarrow> s | Inr s' \<Rightarrow> s')"

definition cl_run :: "cl_context \<Rightarrow> cl_state \<Rightarrow> cl_event list \<Rightarrow> cl_state" where
  "cl_run ctx s es = foldl (cl_step ctx) s es"

section \<open>The specification of the unread counter\<close>

text \<open>
  The specification: the unread count is the number of live messages merged
  since the view last left the bottom, and zero while it is at the bottom.
  \<open>bottom_after b es\<close> is whether the view is at the bottom after the events
  \<open>es\<close>, starting from \<open>b\<close>; \<open>left_bottom b es\<close> are the positions of the
  events at which it left the bottom.
\<close>

fun bottom_after :: "bool \<Rightarrow> cl_event list \<Rightarrow> bool" where
  "bottom_after b [] = b"
| "bottom_after b (ClScroll x # es) = bottom_after x es"
| "bottom_after b (ClLive m # es) = bottom_after b es"
| "bottom_after b (ClHistory r # es) = bottom_after b es"

definition left_bottom :: "bool \<Rightarrow> cl_event list \<Rightarrow> nat list" where
  "left_bottom b es =
     filter (\<lambda>i. bottom_after b (take i es) \<and> \<not> bottom_after b (take (Suc i) es)) [0..<length es]"

definition count_live :: "cl_event list \<Rightarrow> nat" where
  "count_live es = length (filter (\<lambda>e. case e of ClLive _ \<Rightarrow> True | _ \<Rightarrow> False) es)"

definition unread_spec :: "bool \<Rightarrow> cl_event list \<Rightarrow> nat" where
  "unread_spec b es =
     (if bottom_after b es then 0
      else if left_bottom b es = [] then count_live es
      else count_live (drop (Suc (last (left_bottom b es))) es))"

section \<open>Fixtures\<close>

text \<open>Two users, for concrete scenarios.\<close>

definition alice :: user where
  "alice = \<lparr>user_id = ''alice'', user_name = Some ''Alice'', profile_url = None\<rparr>"

definition bob :: user where
  "bob = \<lparr>user_id = ''bob'', user_name = Some ''Bob'', profile_url = None\<rparr>"

definition demo_props :: "user list \<Rightarrow> cl_props" where
  "demo_props us = \<lparr>disable_user_fetch = False, props_users = us, disable_history_fetch = False\<rparr>"

section \<open>Lemmas\<close>

lemma bottom_after_snoc:
  "bottom_after b (es @ [e]) = (case e of ClScroll x \<Rightarrow> x | _ \<Rightarrow> bottom_after b es)"
  by (induction b es rule: bottom_after.induct) (auto split: cl_event.splits)

lemma left_bottom_snoc:
  "left_bottom b (es @ [e]) =
     left_bottom b es @ (if bottom_after b es \<and> \<not> bottom_after b (es @ [e]) then [length es] else [])"
proof -
  have "filter (\<lambda>i. bottom_after b (take i (es @ [e])) \<and> \<not> bottom_after b (take (Suc i) (es @ [e])))
          [0..<length es]
        = filter (\<lambda>i. bottom_after b (take i es) \<and> \<not> bottom_after b (take (Suc i) es)) [0..<length es]"
    by (rule filter_cong) auto
  then show ?thesis by (simp add: left_bottom_def)
qed

lemma count_live_snoc:
  "count_live (es @ [e]) = count_live es + (case e of ClLive _ \<Rightarrow> 1 | _ \<Rightarrow> 0)"
  by (simp add: count_live_def split: cl_event.splits)

lemma left_bottom_less: "i \<in> set (left_bottom b es) \<Longrightarrow> i < length es"
  by (simp add: left_bottom_def)

lemma cl_handler_fields [simp]:
  "unread_messages (cl_handle_on_message m s) =
     (if cl_scrolled_bottom s then unread_messages s else Suc (unread_messages s))"
  "cl_scrolled_bottom (cl_handle_on_message m s) = cl_scrolled_bottom s"
  "unread_messages (cl_handle_bottom_scroll b s) = (if b then 0 else unread_messages s)"
  "cl_scrolled_bottom (cl_handle_bottom_scroll b s) = b"
  by (simp_all add: cl_handle_on_message_def cl_handle_bottom_scroll_def Let_def)

lemma cl_handle_history_fetch_fields:
  "cl_handle_history_fetch ctx r s = Inr s' \<Longrightarrow>
     unread_messages s' = unread_messages s \<and> cl_scrolled_bottom s' = cl_scrolled_bottom s"
  by (auto simp: cl_handle_history_fetch_def Let_def split: list.splits)

lemma cl_history_case_fields [simp]:
  "unread_messages (case cl_handle_history_fetch ctx r s of Inl _ \<Rightarrow> s | Inr s' \<Rightarrow> s') =
     unread_messages s"
  "cl_scrolled_bottom (case cl_handle_history_fetch ctx r s of Inl _ \<Rightarrow> s | Inr s' \<Rightarrow> s') =
     cl_scrolled_bottom s"
  by (auto split: sum.splits dest: cl_handle_history_fetch_fields)

lemma cl_run_snoc: "cl_run ctx s (es @ [e]) = cl_step ctx (cl_run ctx s es) e"
  by (simp add: cl_run_def)

lemma cl_run_bottom: "cl_scrolled_bottom (cl_run ctx s es) = bottom_after (cl_scrolled_bottom s) es"
  by (induction es rule: rev_induct) (auto simp: cl_run_snoc bottom_after_snoc
      cl_run_def split: cl_event.splits)

lemma unread_spec_snoc:
  "unread_spec b (es @ [e]) =
     (if bottom_after b (es @ [e]) then 0
      else if bottom_after b es then 0
      else unread_spec b es + (case e of ClLive _ \<Rightarrow> 1 | _ \<Rightarrow> 0))"
proof (cases "bottom_after b (es @ [e])")
  case True
  then show ?thesis by (simp add: unread_spec_def)
next
  case nb: False
  show ?thesis
  proof (cases "bottom_after b es")
    case True
    with nb have "left_bottom b (es @ [e]) = left_bottom b es @ [length es]"
      by (simp add: left_bottom_snoc)
    with nb True show ?thesis by (simp add: unread_spec_def count_live_def)
  next
    case False
    with nb have lb: "left_bottom b (es @ [e]) = left_bottom b es"
      by (simp add: left_bottom_snoc)
    show ?thesis
    proof (cases "left_bottom b es = []")
      case True
      with nb False lb show ?thesis by (simp add: unread_spec_def count_live_snoc)
    next
      case ne: False
      then have "last (left_bottom b es) < length es"
        using left_bottom_less [of "last (left_bottom b es)" b es] by simp
      then have "drop (Suc (last (left_bottom b es))) (es @ [e])
               = drop (Suc (last (left_bottom b es))) es @ [e]"
        by simp
      with nb False lb ne show ?thesis by (simp add: unread_spec_def count_live_snoc)
    qed
  qed
qed

lemma cl_handle_history_fetch_Inl:
  "cl_handle_history_fetch ctx r s = Inl e \<longleftrightarrow>
     e = EmptyHistoryTypeError \<and> cl_messages s = [] \<and> page_of r (ctx_channel ctx) = []"
  by (auto simp: cl_handle_history_fetch_def Let_def split: list.splits)

lemma cl_get_user_snoc_None:
  "cl_get_user p us i = None \<Longrightarrow> user_id u \<noteq> i \<Longrightarrow> cl_get_user p (us @ [u]) i = None"
  by (auto simp: cl_get_user_def find_user_def find_None_iff split: option.splits)

section \<open>Properties of the class-based list\<close>

text \<open>
  C16: The class list's unread counter refines the specification: starting from zero, after any sequence of live messages, scroll changes and history responses it equals the number of live messages received since the view last left the bottom, and zero while at the bottom.
\<close>

theorem cl_unread_refines_spec:
  "unread_messages s = 0 \<Longrightarrow>
   unread_messages (cl_run ctx s es) = unread_spec (cl_scrolled_bottom s) es"
proof (induction es rule: rev_induct)
  case Nil
  then show ?case by (simp add: cl_run_def unread_spec_def left_bottom_def count_live_def)
next
  case (snoc e es)
  let ?b = "cl_scrolled_bottom s"
  have IH: "unread_messages (cl_run ctx s es) = unread_spec ?b es" using snoc by simp
  have B: "cl_scrolled_bottom (cl_run ctx s es) = bottom_after ?b es" by (rule cl_run_bottom)
  have Z: "bottom_after ?b es \<Longrightarrow> unread_spec ?b es = 0" by (simp add: unread_spec_def)
  show ?case
    using IH B Z
    by (cases e) (auto simp: cl_run_snoc unread_spec_snoc bottom_after_snoc)
qed

theorem cl_unread_refines_spec_witness:
  "let es = [ClScroll False, ClLive (sample_message ''c'' 1), ClScroll True,
             ClLive (sample_message ''c'' 2), ClScroll False, ClLive (sample_message ''c'' 3),
             ClScroll False, ClLive (sample_message ''c'' 4)];
       ctx = \<lparr>has_pubnub = True, ctx_channel = ''c''\<rparr>
   in unread_messages cl_init = 0 \<and> unread_messages (cl_run ctx cl_init es) = 2
      \<and> unread_spec (cl_scrolled_bottom cl_init) es = 2"
proof -
  let ?es = "[ClScroll False, ClLive (sample_message ''c'' 1), ClScroll True,
             ClLive (sample_message ''c'' 2), ClScroll False, ClLive (sample_message ''c'' 3),
             ClScroll False, ClLive (sample_message ''c'' 4)]"
  let ?ctx = "\<lparr>has_pubnub = True, ctx_channel = ''c''\<rparr>"
  have h: "unread_messages cl_init = 0" by (simp add: cl_init_def)
  have r: "unread_messages (cl_run ?ctx cl_init ?es) = 2"
    by (simp add: cl_run_def cl_init_def)
  show ?thesis using cl_unread_refines_spec [OF h, of ?ctx ?es] h r by simp
qed

text \<open>
  C17: Mounting the class list on a channel whose history is empty throws a TypeError reading allMessages[0]: the error is logged, the listener stays subscribed and the state is unchanged, so pagination never ends.
\<close>

theorem cl_mount_empty_history:
  assumes "has_pubnub ctx" and "ctx_channel ctx \<noteq> []" and "\<not> disable_history_fetch p"
    and "cl_messages s = []" and "page_of r (ctx_channel ctx) = []"
  shows "cl_did_mount p ctx (Inr r) s = (s, True, Some EmptyHistoryTypeError)"
  using assms by (simp add: cl_did_mount_def cl_handle_history_fetch_def)

theorem cl_mount_empty_history_witness:
  "let ctx = \<lparr>has_pubnub = True, ctx_channel = ''c''\<rparr>;
       p = \<lparr>disable_user_fetch = False, props_users = [], disable_history_fetch = False\<rparr>
   in has_pubnub ctx \<and> ctx_channel ctx \<noteq> [] \<and> \<not> disable_history_fetch p
      \<and> cl_messages cl_init = [] \<and> page_of [(''c'', [])] (ctx_channel ctx) = []
      \<and> cl_did_mount p ctx (Inr [(''c'', [])]) cl_init = (cl_init, True, Some EmptyHistoryTypeError)
      \<and> \<not> cl_pagination_end cl_init"
proof -
  let ?ctx = "\<lparr>has_pubnub = True, ctx_channel = ''c''\<rparr>"
  let ?p = "\<lparr>disable_user_fetch = False, props_users = [], disable_history_fetch = False\<rparr>"
  have h: "has_pubnub ?ctx" "ctx_channel ?ctx \<noteq> []" "\<not> disable_history_fetch ?p"
    "cl_messages cl_init = []" "page_of [(''c'', [])] (ctx_channel ?ctx) = []"
    by (simp_all add: cl_init_def page_of_def)
  show ?thesis using cl_mount_empty_history [OF h] h by (simp add: cl_init_def)
qed



text \<open>
  C19: A live message older than the newest held message is appended after it, so the class list's messages are no longer sorted: handleOnMessage does not insert at the sorted position the specification requires.
\<close>

theorem cl_on_message_breaks_order:
  assumes "cl_messages s \<noteq> []" and "msg_key m < msg_key (last (cl_messages s))"
  shows "\<not> sorted (map msg_key (cl_messages (cl_handle_on_message m s)))"
proof -
  have "cl_messages (cl_handle_on_message m s) = cl_messages s @ [m]"
    by (simp add: cl_handle_on_message_def Let_def)
  moreover have "last (cl_messages s) \<in> set (cl_messages s)" using assms(1) by simp
  ultimately show ?thesis using assms(2) by (force simp: sorted_append)
qed

theorem cl_on_message_breaks_order_witness:
  "let s = cl_init\<lparr>cl_messages := [sample_message ''c'' 200]\<rparr>; m = sample_message ''c'' 100
   in cl_messages s \<noteq> [] \<and> msg_key m < msg_key (last (cl_messages s))
      \<and> map timetoken (cl_messages (cl_handle_on_message m s)) = [200, 100]
      \<and> \<not> sorted (map msg_key (cl_messages (cl_handle_on_message m s)))"
proof -
  let ?s = "cl_init\<lparr>cl_messages := [sample_message ''c'' 200]\<rparr>"
  let ?m = "sample_message ''c'' 100"
  have h1: "cl_messages ?s \<noteq> []" by simp
  have h2: "msg_key ?m < msg_key (last (cl_messages ?s))"
    by (simp add: msg_key_def sample_message_def js_number_exact)
  have e: "map timetoken (cl_messages (cl_handle_on_message ?m ?s)) = [200, 100]"
    by (simp add: cl_handle_on_message_def cl_init_def sample_message_def Let_def)
  show ?thesis using cl_on_message_breaks_order [OF h1 h2] h1 h2 e by simp
qed

text \<open>
  C20: When every distinct sender is non-empty, unknown and has metadata whose id is the sender, the sender loop fetches all of them in order.
\<close>

theorem senders_loop_fetches_all:
  assumes "distinct xs"
    and "\<forall>i \<in> set xs. i \<noteq> [] \<and> cl_get_user p us i = None \<and> meta i \<noteq> None \<and> user_id (the (meta i)) = i"
  shows "senders_loop p meta (map Some xs) us = us @ map (\<lambda>i. the (meta i)) xs"
  using assms
proof (induction xs arbitrary: us)
  case Nil
  then show ?case by simp
next
  case (Cons x xs)
  from Cons.prems obtain u where mx: "meta x = Some u" and ux: "user_id u = x"
    and nx: "x \<noteq> []" and gx: "cl_get_user p us x = None" by auto
  have "\<forall>i \<in> set xs. i \<noteq> [] \<and> cl_get_user p (us @ [u]) i = None \<and> meta i \<noteq> None
          \<and> user_id (the (meta i)) = i"
    using Cons.prems ux by (auto intro: cl_get_user_snoc_None)
  then have "senders_loop p meta (map Some xs) (us @ [u]) = (us @ [u]) @ map (\<lambda>i. the (meta i)) xs"
    using Cons.prems(1) by (intro Cons.IH) auto
  with mx nx gx show ?case by simp
qed

theorem senders_loop_fetches_all_witness:
  "let p = \<lparr>disable_user_fetch = False, props_users = [], disable_history_fetch = False\<rparr>;
       meta = (\<lambda>i. if i = ''alice'' then Some alice else if i = ''bob'' then Some bob else None)
   in distinct [''alice'', ''bob'']
      \<and> (\<forall>i \<in> set [''alice'', ''bob'']. i \<noteq> [] \<and> cl_get_user p [] i = None \<and> meta i \<noteq> None
           \<and> user_id (the (meta i)) = i)
      \<and> senders_loop p meta [Some ''alice'', Some ''bob''] [] = [alice, bob]"
proof -
  let ?p = "\<lparr>disable_user_fetch = False, props_users = [], disable_history_fetch = False\<rparr>"
  let ?meta = "\<lambda>i. if i = ''alice'' then Some alice else if i = ''bob'' then Some bob else None"
  have h1: "distinct [''alice'', ''bob'']" by simp
  have h2: "\<forall>i \<in> set [''alice'', ''bob'']. i \<noteq> [] \<and> cl_get_user ?p [] i = None \<and> ?meta i \<noteq> None
           \<and> user_id (the (?meta i)) = i"
    by (simp add: cl_get_user_def find_user_def alice_def bob_def)
  show ?thesis using senders_loop_fetches_all [OF h1 h2] h1 h2 by simp
qed


end
