(* ===== verification/Reactions.thy ===== *)
theory Reactions
  imports Timeline "HOL-Library.AList"
begin

text \<open>
  Emoji reactions of the hooks-based \<open>MessageList\<close>
  (\<open>src/lib/src/message-list/message-list.tsx\<close>): the reaction chips rendered
  under a message, the toggle a click on a chip performs, and the emoji picker
  whose state lives in \<open>ml_state\<close> (\<open>picker_shown\<close>, \<open>reacting_to\<close>). Adding
  or removing a reaction only sends a message action to the service; the
  reactions shown come back as message-action events, aggregated by the chat
  provider outside \<open>src/\<close>, modelled here from the specification
  (\<open>add_reaction_local\<close>, \<open>remove_reaction_local\<close>).
\<close>

section \<open>Commands and views\<close>

text \<open>The two calls to the service: \<open>addMessageAction\<close> and \<open>removeMessageAction\<close>.\<close>

datatype action_cmd =
    AddMessageAction channel_id "timetoken option" string
  | RemoveMessageAction channel_id timetoken timetoken

text \<open>\<open>message.actions?.reaction\<close>, and the instances of one reaction value.\<close>

definition reaction_values :: "message \<Rightarrow> action_values option" where
  "reaction_values m = map_of (actions m) ''reaction''"

definition instances :: "message \<Rightarrow> string \<Rightarrow> action_entry list" where
  "instances m v =
     (case reaction_values m of None \<Rightarrow> [] | Some vs \<Rightarrow> (case map_of vs v of None \<Rightarrow> [] | Some es \<Rightarrow> es))"

text \<open>\<open>instances?.find((i) => i.uuid === pubnub.getUUID())\<close>.\<close>

definition user_reaction :: "uuid \<Rightarrow> action_entry list \<Rightarrow> action_entry option" where
  "user_reaction me es = find (\<lambda>i. act_uuid i = me) es"

text \<open>
  \<open>renderReactions\<close>: per key of \<open>Object.keys(reactions)\<close>, the value, its count
  and whether it is the current user's.
\<close>

definition render_reactions :: "uuid \<Rightarrow> message \<Rightarrow> (string \<times> nat \<times> bool) list option" where
  "render_reactions me m =
     map_option (\<lambda>vs. map (\<lambda>v. let es = (case map_of vs v of Some es \<Rightarrow> es | None \<Rightarrow> [])
                            in (v, length es, user_reaction me es \<noteq> None))
                     (object_keys vs))
       (reaction_values m)"

text \<open>The chip's \<open>onClick\<close>: remove the user's own reaction if there is one, add one otherwise.\<close>

definition reaction_click :: "channel_id \<Rightarrow> uuid \<Rightarrow> message \<Rightarrow> string \<Rightarrow> action_cmd" where
  "reaction_click ch me m v =
     (case user_reaction me (instances m v) of
        Some e \<Rightarrow> RemoveMessageAction ch (timetoken m) (action_tt e)
      | None \<Rightarrow> AddMessageAction ch (Some (timetoken m)) v)"

section \<open>The emoji picker\<close>

definition handle_open_reactions :: "timetoken \<Rightarrow> ml_state \<Rightarrow> ml_state" where
  "handle_open_reactions t s = s\<lparr>picker_shown := True, reacting_to := Some t\<rparr>"

text \<open>\<open>handleCloseReactions\<close>: a mouse-down inside the picker is ignored.\<close>

definition handle_close_reactions :: "bool \<Rightarrow> ml_state \<Rightarrow> ml_state" where
  "handle_close_reactions inside s =
     (if inside then s else s\<lparr>picker_shown := False, reacting_to := None\<rparr>)"

text \<open>The picker's \<open>onSelect\<close>: add the chosen emoji to the message being reacted to, hide the picker.\<close>

definition picker_select :: "channel_id \<Rightarrow> string \<Rightarrow> ml_state \<Rightarrow> action_cmd \<times> ml_state" where
  "picker_select ch v s = (AddMessageAction ch (reacting_to s) v, s\<lparr>picker_shown := False\<rparr>)"

section \<open>Local aggregation of reaction events (specification)\<close>

text \<open>
  An added reaction is recorded once per sender and value; a removed one drops
  the sender's entry, and the value itself once no entry is left.
\<close>

definition update_reactions :: "(action_values \<Rightarrow> action_values) \<Rightarrow> message \<Rightarrow> message" where
  "update_reactions f m =
     m\<lparr>actions := AList.update ''reaction''
        (f (case reaction_values m of None \<Rightarrow> [] | Some vs \<Rightarrow> vs)) (actions m)\<rparr>"

definition add_reaction_local :: "string \<Rightarrow> uuid \<Rightarrow> timetoken \<Rightarrow> message \<Rightarrow> message" where
  "add_reaction_local v u t m =
     (if user_reaction u (instances m v) \<noteq> None then m
      else update_reactions
             (\<lambda>vs. AList.update v (instances m v @ [\<lparr>act_uuid = u, action_tt = t\<rparr>]) vs) m)"

definition remove_reaction_local :: "string \<Rightarrow> uuid \<Rightarrow> message \<Rightarrow> message" where
  "remove_reaction_local v u m =
     (let es = filter (\<lambda>e. act_uuid e \<noteq> u) (instances m v)
      in update_reactions (\<lambda>vs. if es = [] then AList.delete v vs else AList.update v es vs) m)"

text \<open>The event a command produces once the service echoes it back; \<open>t\<close> is the new action's timetoken.\<close>

fun apply_cmd :: "uuid \<Rightarrow> timetoken \<Rightarrow> action_cmd \<Rightarrow> message \<Rightarrow> message" where
  "apply_cmd me t (AddMessageAction ch mt v) m = add_reaction_local v me t m"
| "apply_cmd me t (RemoveMessageAction ch mt at) m =
     (case find (\<lambda>(v, es). \<exists>e \<in> set es. action_tt e = at \<and> act_uuid e = me)
             (case reaction_values m of None \<Rightarrow> [] | Some vs \<Rightarrow> vs) of
        None \<Rightarrow> m
      | Some (v, _) \<Rightarrow> remove_reaction_local v me m)"

definition reacted :: "uuid \<Rightarrow> message \<Rightarrow> string \<Rightarrow> bool" where
  "reacted me m v \<longleftrightarrow> user_reaction me (instances m v) \<noteq> None"

text \<open>
  Well-formed reactions: reaction values are distinct keys, the action
  timetokens the service assigns are distinct, and no value is listed without
  an instance.
\<close>

definition reactions_wf :: "message \<Rightarrow> bool" where
  "reactions_wf m \<longleftrightarrow>
     (case reaction_values m of
        None \<Rightarrow> True
      | Some vs \<Rightarrow> distinct (map fst vs) \<and> distinct (concat (map (\<lambda>(v, es). map action_tt es) vs))
                   \<and> (\<forall>(v, es) \<in> set vs. es \<noteq> []))"

text \<open>The picker always knows which message it reacts to while it is shown.\<close>

definition picker_ok :: "ml_state \<Rightarrow> bool" where
  "picker_ok s \<longleftrightarrow> (picker_shown s \<longrightarrow> reacting_to s \<noteq> None)"

text \<open>A message with one thumbs-up reaction by \<open>u1\<close>, for concrete scenarios.\<close>

definition reacted_message :: message where
  "reacted_message =
     (sample_message ''c'' 200)\<lparr>actions :=
        [(''reaction'', [(''thumbs_up'', [\<lparr>act_uuid = ''u1'', action_tt = 5\<rparr>])])]\<rparr>"

section \<open>Lemmas\<close>

lemma reaction_values_update [simp]:
  "reaction_values (update_reactions f m) =
     Some (f (case reaction_values m of None \<Rightarrow> [] | Some vs \<Rightarrow> vs))"
  by (simp add: update_reactions_def reaction_values_def update_conv')

lemma instances_update_reactions:
  "instances (update_reactions f m) v =
     (case map_of (f (case reaction_values m of None \<Rightarrow> [] | Some vs \<Rightarrow> vs)) v of
        None \<Rightarrow> [] | Some es \<Rightarrow> es)"
  by (simp add: instances_def)

lemma instances_add_same [simp]:
  "instances (add_reaction_local v u t m) v =
     (if reacted u m v then instances m v else instances m v @ [\<lparr>act_uuid = u, action_tt = t\<rparr>])"
  by (simp add: add_reaction_local_def reacted_def instances_update_reactions update_conv')

lemma instances_remove_same [simp]:
  "instances (remove_reaction_local v u m) v = filter (\<lambda>e. act_uuid e \<noteq> u) (instances m v)"
  by (simp add: remove_reaction_local_def Let_def instances_update_reactions update_conv'
      delete_conv')

lemma user_reaction_None_iff: "user_reaction u es = None \<longleftrightarrow> (\<forall>e \<in> set es. act_uuid e \<noteq> u)"
  by (auto simp: user_reaction_def find_None_iff)

lemma reacted_add_same: "reacted u (add_reaction_local v u t m) v"
  by (auto simp: reacted_def user_reaction_None_iff)

lemma not_reacted_remove_same: "\<not> reacted u (remove_reaction_local v u m) v"
  by (simp add: reacted_def user_reaction_None_iff)

lemma find_action_owner:
  assumes "distinct (concat (map (\<lambda>(v, es). map action_tt es) vs))"
    and "(v, es) \<in> set vs" and "e \<in> set es" and "act_uuid e = me"
  shows "find (\<lambda>(v', es'). \<exists>e' \<in> set es'. action_tt e' = action_tt e \<and> act_uuid e' = me) vs
         = Some (v, es)"
  using assms
proof (induction vs)
  case Nil
  then show ?case by simp
next
  case (Cons p vs)
  obtain v0 es0 where p: "p = (v0, es0)" by (cases p)
  show ?case
  proof (cases "(v0, es0) = (v, es)")
    case True
    with Cons.prems p show ?thesis by auto
  next
    case False
    with Cons.prems p have inr: "(v, es) \<in> set vs" by auto
    have ein: "action_tt e \<in> set (concat (map (\<lambda>(v, es). map action_tt es) vs))"
      using inr Cons.prems(3) by force
    have "distinct (map action_tt es0 @ concat (map (\<lambda>(v, es). map action_tt es) vs))"
      using Cons.prems(1) p by simp
    then have "set (map action_tt es0) \<inter> set (concat (map (\<lambda>(v, es). map action_tt es) vs)) = {}"
      by (rule distinct_append [THEN iffD1, THEN conjunct2, THEN conjunct2])
    with ein have "action_tt e \<notin> set (map action_tt es0)" by blast
    then have "\<not> (\<exists>e' \<in> set es0. action_tt e' = action_tt e)" by (metis image_eqI set_map)
    moreover have "find (\<lambda>(v', es'). \<exists>e' \<in> set es'. action_tt e' = action_tt e \<and> act_uuid e' = me) vs
         = Some (v, es)"
      using Cons.prems p inr by (intro Cons.IH) auto
    ultimately show ?thesis using p by auto
  qed
qed

lemma render_reactions_keys_counts:
  assumes "reactions_wf m" and "render_reactions me m = Some cs"
  shows "distinct (map fst cs) \<and> list_all (\<lambda>(v, n, a). 0 < n) cs"
proof -
  from assms(2) obtain vs where rv: "reaction_values m = Some vs"
    and cs: "cs = map (\<lambda>v. let es = (case map_of vs v of Some es \<Rightarrow> es | None \<Rightarrow> [])
                          in (v, length es, user_reaction me es \<noteq> None)) (object_keys vs)"
    by (auto simp: render_reactions_def)
  from assms(1) rv have d: "distinct (map fst vs)" and ne: "\<forall>(v, es) \<in> set vs. es \<noteq> []"
    by (simp_all add: reactions_wf_def)
  have keys: "map fst cs = object_keys vs" by (simp add: cs Let_def comp_def)
  have "0 < length (case map_of vs v of Some es \<Rightarrow> es | None \<Rightarrow> [])" if "v \<in> set (object_keys vs)" for v
  proof -
    from that obtain es where "map_of vs v = Some es" by (auto dest: weak_map_of_SomeI)
    with ne show ?thesis by (auto dest: map_of_SomeD)
  qed
  then have "list_all (\<lambda>(v, n, a). 0 < n) cs"
    by (simp add: list_all_iff cs Let_def)
  moreover have "distinct (map fst cs)"
    unfolding keys by (rule distinct_object_keys [OF d])
  ultimately show ?thesis by simp
qed

section \<open>Properties of reactions\<close>

text \<open>
  C24: Clicking a reaction chip and applying the resulting service event toggles whether the current user has reacted with that value: the click removes the user's own reaction when there is one and adds one otherwise.
\<close>

theorem reaction_click_toggles:
  assumes "reactions_wf m"
  shows "reacted me (apply_cmd me t (reaction_click ch me m v) m) v \<longleftrightarrow> \<not> reacted me m v"
proof (cases "user_reaction me (instances m v)")
  case None
  then have "reaction_click ch me m v = AddMessageAction ch (Some (timetoken m)) v"
    by (simp add: reaction_click_def)
  then have "apply_cmd me t (reaction_click ch me m v) m = add_reaction_local v me t m" by simp
  with None reacted_add_same [of me v t m] show ?thesis
    by (simp add: reacted_def del: instances_add_same)
next
  case (Some e)
  then have click: "reaction_click ch me m v = RemoveMessageAction ch (timetoken m) (action_tt e)"
    by (simp add: reaction_click_def)
  from Some obtain vs es where rv: "reaction_values m = Some vs" and mv: "map_of vs v = Some es"
    and e: "e \<in> set es" "act_uuid e = me"
    by (auto simp: instances_def user_reaction_def find_Some_iff nth_mem
        split: option.splits)
  from assms rv have d: "distinct (concat (map (\<lambda>(v, es). map action_tt es) vs))"
    by (simp add: reactions_wf_def)
  have "find (\<lambda>(v', es'). \<exists>e' \<in> set es'. action_tt e' = action_tt e \<and> act_uuid e' = me) vs
         = Some (v, es)"
    using d map_of_SomeD [OF mv] e by (rule find_action_owner)
  then have "apply_cmd me t (reaction_click ch me m v) m = remove_reaction_local v me m"
    using click rv by simp
  with Some not_reacted_remove_same [of me v m] show ?thesis
    by (simp add: reacted_def del: instances_remove_same)
qed

theorem reaction_click_toggles_witness:
  "reactions_wf reacted_message \<and> reacted ''u1'' reacted_message ''thumbs_up''
   \<and> \<not> reacted ''u1'' (apply_cmd ''u1'' 9 (reaction_click ''c'' ''u1'' reacted_message ''thumbs_up'')
                          reacted_message) ''thumbs_up''"
proof -
  have h: "reactions_wf reacted_message"
    by (simp add: reactions_wf_def reacted_message_def reaction_values_def sample_message_def)
  have r: "reacted ''u1'' reacted_message ''thumbs_up''"
    by (simp add: reacted_def user_reaction_def instances_def reacted_message_def
        reaction_values_def sample_message_def)
  show ?thesis using reaction_click_toggles [OF h, of "''u1''" 9 "''c''" "''thumbs_up''"] h r by simp
qed

text \<open>
  Adding a reaction is idempotent per sender and value: a second addition by the same sender changes nothing (the specification's double thumbs-up scenario).
\<close>

theorem add_reaction_idempotent:
  "add_reaction_local v u t' (add_reaction_local v u t m) = add_reaction_local v u t m"
  using reacted_add_same [of u v t m] by (simp add: add_reaction_local_def [of v u t'] reacted_def)

text \<open>
  Removing the only reaction of a value removes the value itself from the message's reactions (the specification's removal scenario).
\<close>

theorem remove_last_reaction_drops_value:
  assumes "instances m v = [e]" and "act_uuid e = u"
  shows "v \<notin> fst ` set (the (reaction_values (remove_reaction_local v u m)))"
  using assms
  by (simp add: remove_reaction_local_def Let_def dom_map_of_conv_image_fst [symmetric]
      delete_conv' split: option.splits)

theorem remove_last_reaction_drops_value_witness:
  "instances reacted_message ''thumbs_up'' = [\<lparr>act_uuid = ''u1'', action_tt = 5\<rparr>]
   \<and> act_uuid \<lparr>act_uuid = ''u1'', action_tt = 5\<rparr> = ''u1''
   \<and> ''thumbs_up'' \<notin> fst ` set (the (reaction_values
        (remove_reaction_local ''thumbs_up'' ''u1'' reacted_message)))"
proof -
  have h: "instances reacted_message ''thumbs_up'' = [\<lparr>act_uuid = ''u1'', action_tt = 5\<rparr>]"
    by (simp add: instances_def reacted_message_def reaction_values_def sample_message_def)
  show ?thesis using remove_last_reaction_drops_value [OF h, of "''u1''"] h by simp
qed

text \<open>
  C27: Adding a reaction for a sender who had none with that value and then removing it restores the message exactly.
\<close>

theorem remove_add_roundtrip:
  assumes "reactions_wf m" and "reaction_values m \<noteq> None" and "\<not> reacted u m v"
  shows "remove_reaction_local v u (add_reaction_local v u t m) = m"
proof -
  obtain vs where rv: "reaction_values m = Some vs" using assms(2) by auto
  let ?I = "instances m v"
  let ?e = "\<lparr>act_uuid = u, action_tt = t\<rparr>"
  have I: "?I = (case map_of vs v of None \<Rightarrow> [] | Some es \<Rightarrow> es)" using rv by (simp add: instances_def)
  have keep: "filter (\<lambda>e. act_uuid e \<noteq> u) (?I @ [?e]) = ?I"
    using assms(3) by (simp add: reacted_def user_reaction_None_iff)
  have inner: "(if ?I = [] then AList.delete v (AList.update v (?I @ [?e]) vs)
                else AList.update v ?I (AList.update v (?I @ [?e]) vs)) = vs"
  proof (cases "map_of vs v")
    case None
    then have "v \<notin> fst ` set vs" by (simp add: map_of_eq_None_iff)
    with None I show ?thesis by (simp add: delete_update_same)
  next
    case (Some es)
    with assms(1) rv have "es \<noteq> []" by (auto simp: reactions_wf_def dest: map_of_SomeD)
    with Some I show ?thesis by (simp add: update_triv)
  qed
  let ?X = "AList.update v (?I @ [?e]) vs"
  let ?m1 = "m\<lparr>actions := AList.update ''reaction'' ?X (actions m)\<rparr>"
  have add: "add_reaction_local v u t m = ?m1"
    using assms(3) rv by (simp add: add_reaction_local_def reacted_def update_reactions_def)
  have rv1: "reaction_values ?m1 = Some ?X" by (simp add: reaction_values_def update_conv')
  have i1: "instances ?m1 v = ?I @ [?e]"
    unfolding instances_def [of ?m1 v] rv1 by (simp add: update_conv' del: instances_add_same)
  have "remove_reaction_local v u ?m1 =
      ?m1\<lparr>actions := AList.update ''reaction''
         (if ?I = [] then AList.delete v ?X else AList.update v ?I ?X) (actions ?m1)\<rparr>"
    using keep by (simp only: remove_reaction_local_def Let_def update_reactions_def rv1 i1
        option.case)
  also have "\<dots> = ?m1\<lparr>actions := AList.update ''reaction'' vs (actions ?m1)\<rparr>"
    using inner by simp
  also have "\<dots> = m"
  proof -
    have "map_of (actions m) ''reaction'' = Some vs" using rv by (simp add: reaction_values_def)
    then show ?thesis by (simp add: update_triv)
  qed
  finally show ?thesis by (simp only: add)
qed

theorem remove_add_roundtrip_witness:
  "reactions_wf reacted_message \<and> reaction_values reacted_message \<noteq> None
   \<and> \<not> reacted ''u2'' reacted_message ''thumbs_up''
   \<and> remove_reaction_local ''thumbs_up'' ''u2'' (add_reaction_local ''thumbs_up'' ''u2'' 7 reacted_message)
     = reacted_message"
proof -
  have h1: "reactions_wf reacted_message"
    by (simp add: reactions_wf_def reacted_message_def reaction_values_def sample_message_def)
  have h2: "reaction_values reacted_message \<noteq> None"
    by (simp add: reacted_message_def reaction_values_def sample_message_def)
  have h3: "\<not> reacted ''u2'' reacted_message ''thumbs_up''"
    by (simp add: reacted_def user_reaction_def instances_def reacted_message_def
        reaction_values_def sample_message_def)
  show ?thesis using remove_add_roundtrip [OF h1 h2 h3, of 7] h1 h2 h3 by simp
qed

text \<open>
  C28: Every handler keeps the emoji picker consistent: while it is shown it knows the message it reacts to, so a selection always sends the reaction for a message.
\<close>

theorem picker_ok_preserved:
  assumes "picker_ok s"
  shows "picker_ok (handle_open_reactions t s) \<and> picker_ok (handle_close_reactions inside s)
     \<and> picker_ok (snd (picker_select ch v s)) \<and> picker_ok (handle_history_fetch p r s)
     \<and> picker_ok (handle_bottom_scroll b s) \<and> picker_ok (messages_effect s)
     \<and> (picker_shown s \<longrightarrow> (\<exists>tt. fst (picker_select ch v s) = AddMessageAction ch (Some tt) v))"
  using assms
  by (auto simp: picker_ok_def handle_open_reactions_def handle_close_reactions_def
      picker_select_def handle_history_fetch_def handle_bottom_scroll_def messages_effect_def Let_def)

theorem picker_ok_preserved_witness:
  "let s = handle_open_reactions 200 (init_state ''c'')
   in picker_ok s \<and> picker_shown s
      \<and> fst (picker_select ''c'' ''thumbs_up'' s) = AddMessageAction ''c'' (Some 200) ''thumbs_up''
      \<and> picker_ok (snd (picker_select ''c'' ''thumbs_up'' s))"
proof -
  let ?s = "handle_open_reactions 200 (init_state ''c'')"
  have h: "picker_ok ?s" by (simp add: picker_ok_def handle_open_reactions_def)
  have e: "picker_shown ?s \<and> fst (picker_select ''c'' ''thumbs_up'' ?s)
           = AddMessageAction ''c'' (Some 200) ''thumbs_up''"
    by (simp add: handle_open_reactions_def picker_select_def)
  show ?thesis using picker_ok_preserved [OF h, of 0 False "''c''" "''thumbs_up''"] h e by simp
qed

text \<open>
  C29: A rendered reaction chip shows the number of instances of its value, and it is marked active exactly when clicking it removes the current user's reaction.
\<close>

theorem render_chip_matches_click:
  assumes "render_reactions me m = Some cs" and "(v, n, a) \<in> set cs"
  shows "n = length (instances m v)
         \<and> (a \<longleftrightarrow> (\<exists>att. reaction_click ch me m v = RemoveMessageAction ch (timetoken m) att))"
proof -
  from assms(1) obtain vs where rv: "reaction_values m = Some vs"
    and cs: "cs = map (\<lambda>v. let es = (case map_of vs v of Some es \<Rightarrow> es | None \<Rightarrow> [])
                           in (v, length es, user_reaction me es \<noteq> None)) (object_keys vs)"
    by (auto simp: render_reactions_def)
  from rv have i: "instances m v = (case map_of vs v of Some es \<Rightarrow> es | None \<Rightarrow> [])"
    by (simp add: instances_def)
  from assms(2) cs i have "n = length (instances m v)" and "a = (user_reaction me (instances m v) \<noteq> None)"
    by (auto simp: Let_def)
  then show ?thesis by (auto simp: reaction_click_def split: option.splits)
qed

theorem render_chip_matches_click_witness:
  "render_reactions ''u1'' reacted_message = Some [(''thumbs_up'', 1, True)]
   \<and> reaction_click ''c'' ''u1'' reacted_message ''thumbs_up'' = RemoveMessageAction ''c'' 200 5"
proof -
  have h1: "render_reactions ''u1'' reacted_message = Some [(''thumbs_up'', 1, True)]"
    by (simp add: render_reactions_def reacted_message_def reaction_values_def
        sample_message_def user_reaction_def object_keys_def is_array_index_def digit_val_def)
  have h2: "(''thumbs_up'', 1, True) \<in> set [(''thumbs_up'', 1::nat, True)]" by simp
  have c: "reaction_click ''c'' ''u1'' reacted_message ''thumbs_up'' = RemoveMessageAction ''c'' 200 5"
    by (simp add: reaction_click_def user_reaction_def instances_def reacted_message_def
        reaction_values_def sample_message_def)
  show ?thesis using render_chip_matches_click [OF h1 h2, of "''c''"] h1 c by simp
qed

end
