(* ===== verification/MessageTime.thy ===== *)
theory MessageTime
  imports Prelude
begin

text \<open>
  \<open>getTime\<close>, the time label of a message, identical in both message lists
  (\<open>src/lib/src/message-list/message-list.tsx\<close> and
  \<open>src/src/message-list/message-list.tsx\<close>): the timetoken, in units of
  \<open>10^-7\<close> s, is printed, parsed back, divided into milliseconds, made a
  \<open>Date\<close> and shown as local hours and zero-padded minutes.
\<close>

section \<open>Operations\<close>

text \<open>\<open>new Date(x)\<close> truncates \<open>x\<close> towards zero (ECMAScript \<open>TimeClip\<close>).\<close>

definition trunc_div :: "int \<Rightarrow> int \<Rightarrow> int" where
  "trunc_div n d = sgn n * (\<bar>n\<bar> div d)"

text \<open>
  \<open>TimeClip\<close> makes a date invalid beyond \<open>8.64 \<cdot> 10^15\<close> ms, that is, for
  \<open>|n / 10000| > 8.64 \<cdot> 10^15\<close>.
\<close>

definition date_valid :: "int \<Rightarrow> bool" where
  "date_valid n \<longleftrightarrow> \<bar>n\<bar> \<le> 86400000000000000000"

text \<open>
  \<open>getMinutes\<close> and \<open>getHours\<close> on the local time \<open>t\<close> (ECMAScript \<open>MinFromTime\<close>,
  \<open>HourFromTime\<close>: floor division, non-negative remainder). The local time is
  the UTC time plus the zone's offset \<open>tz\<close> in milliseconds, taken as fixed.
\<close>

definition date_minutes :: "int \<Rightarrow> int" where
  "date_minutes t = (t div 60000) mod 60"

definition date_hours :: "int \<Rightarrow> int" where
  "date_hours t = (t div 3600000) mod 24"

text \<open>
  \<open>getTime(timestamp)\<close>. A timetoken arrives as the string of its digits, so
  \<open>String(timestamp)\<close> is \<open>show_int\<close>. An invalid date prints \<open>NaN\<close> for the
  hours and \<open>"0" + NaN\<close> for the minutes. The rounding of the quotient
  \<open>n / 10000\<close> to a double (below a millisecond) is not modelled.
\<close>

definition get_time :: "int \<Rightarrow> timetoken \<Rightarrow> string" where
  "get_time tz ts =
     (case parse_int (show_int ts) of
        None \<Rightarrow> ''NaN:0NaN''
      | Some n \<Rightarrow>
          if \<not> date_valid n then ''NaN:0NaN''
          else let t = trunc_div n 10000 + tz; minutes = date_minutes t
               in show_int (date_hours t) @ '':'' @
                  (if 9 < minutes then show_int minutes else ''0'' @ show_int minutes))"

section \<open>Lemmas\<close>

lemma show_nat_small: "n < 10 \<Longrightarrow> show_nat n = [char_of (48 + n)]"
  by (simp add: show_nat.simps)

lemma length_show_nat_2: "10 \<le> n \<Longrightarrow> n < 100 \<Longrightarrow> length (show_nat n) = 2"
  by (simp add: show_nat.simps [of n] show_nat_small)

lemma digits_value_zero_Cons: "digits_value 10 (CHR ''0'' # s) = digits_value 10 s"
  by (simp add: digits_value_def digit_val_def)

lemma dec_digit_zero: "dec_digit CHR ''0''"
  by (simp add: dec_digit_def)

lemma parse_int_minutes:
  assumes "0 \<le> m" and "m < 60"
  shows "parse_int (if 9 < m then show_int m else ''0'' @ show_int m) = Some m"
    and "length (if 9 < m then show_int m else ''0'' @ show_int m) = 2"
proof -
  have dv: "digits_value 10 (show_nat (nat m)) = nat m" by (rule digits_value_show_nat)
  have ex: "js_number m = m" using assms by (simp add: js_number_exact)
  show "parse_int (if 9 < m then show_int m else ''0'' @ show_int m) = Some m"
    using assms parse_int_show_int [of m] ex
      parse_int_digits [of "CHR ''0'' # show_nat (nat m)"] show_nat_dec [of "nat m"]
    by (simp add: show_int_def dv digits_value_zero_Cons dec_digit_zero)
  show "length (if 9 < m then show_int m else ''0'' @ show_int m) = 2"
    using assms by (auto simp: show_int_def show_nat_small length_show_nat_2)
qed

text \<open>
  C37: For every timetoken within the range of dates, the label is the hour,
  a colon and the minute as exactly two digits, which read back as the minute
  of the local time.
\<close>

theorem get_time_format:
  assumes "date_valid (js_number ts)"
  shows "\<exists>mm. get_time tz ts = show_int (date_hours (trunc_div (js_number ts) 10000 + tz)) @ CHR '':'' # mm
          \<and> length mm = 2 \<and> parse_int mm = Some (date_minutes (trunc_div (js_number ts) 10000 + tz))"
proof -
  let ?t = "trunc_div (js_number ts) 10000 + tz"
  have m: "0 \<le> date_minutes ?t" "date_minutes ?t < 60" by (simp_all add: date_minutes_def)
  let ?mm = "if 9 < date_minutes ?t then show_int (date_minutes ?t) else ''0'' @ show_int (date_minutes ?t)"
  have "get_time tz ts = show_int (date_hours ?t) @ CHR '':'' # ?mm"
    using assms by (simp add: get_time_def parse_int_show_int Let_def)
  then show ?thesis using parse_int_minutes [OF m] by blast
qed

theorem get_time_format_witness:
  "date_valid (js_number 16409952000000000) \<and> get_time 0 16409952000000000 = ''0:00''"
proof -
  have j: "js_number 16409952000000000 = 16409952000000000"
    using round_double_nat_even_54 [of 16409952000000000] by (simp add: js_number_def)
  have h: "date_valid (js_number 16409952000000000)" by (simp add: j date_valid_def)
  have p: "parse_int (show_int 16409952000000000) = Some 16409952000000000"
    using parse_int_show_int [of 16409952000000000] j by simp
  have "get_time 0 16409952000000000 = ''0:00''"
    unfolding get_time_def p
    by (simp add: date_valid_def trunc_div_def date_hours_def date_minutes_def show_int_def show_nat_small char_of_eq_iff)
  with h show ?thesis using get_time_format [OF h, of 0] by simp
qed



end
