(* ===== verification/TimelineView.thy ===== *)
theory TimelineView
  imports Reactions MessageTime
begin

text \<open>
  What the hooks-based \<open>MessageList\<close> (\<open>src/lib/src/message-list/message-list.tsx\<close>)
  renders from its state: \<open>renderItem\<close>, \<open>renderMessage\<close>,
  \<open>renderAttachment\<close>, \<open>renderWelcomeMessage\<close> and the list itself, with the
  unread banner, the spinner, the welcome message and the emoji picker. The
  views are the data the markup shows; class names and layout are left out.
\<close>

section \<open>Render props and views\<close>

text \<open>
  The props only the renderers read: \<open>welcomeRenderer\<close> (\<open>undefined\<close>,
  \<open>false\<close> or an element), the presence of \<open>messageRenderer\<close> and
  \<open>bubbleRenderer\<close>, and the optional \<open>filter\<close>. The props the logic reads
  are \<open>ml_props\<close>.
\<close>

datatype welcome_prop = WelcomeDisabled | WelcomeCustom

record ml_render_props =
  welcome_renderer :: "welcome_prop option"
  has_message_renderer :: bool
  has_bubble_renderer :: bool
  msg_filter :: "(message \<Rightarrow> bool) option"

text \<open>What the renderers read besides the props: \<open>pubnub.getUUID()\<close>, the users' metadata and the time zone.\<close>

record view_env =
  ve_me :: uuid
  ve_users :: "user list"
  ve_tz :: int

text \<open>\<open>MessageRendererProps\<close>: the arguments of a custom renderer.\<close>

record renderer_args =
  ra_message :: message
  ra_user :: "user option"
  ra_time :: string
  ra_own :: bool

datatype welcome_view = DefaultWelcome | CustomWelcome

datatype attachment_view =
    ImageView "string option"
  | LinkView "string option" "string option" "string option" "string option" "string option" "string option"
  | EmptyAttachment

datatype bubble_view =
    CustomBubble renderer_args
  | DefaultBubble string "attachment_view list"

text \<open>
  The body of an item: a custom renderer's output, or the avatar (the profile
  picture, \<open>None\<close> for the placeholder), author, time, bubble and the reaction
  chips (\<open>None\<close> when reactions are off or the message has none).
\<close>

datatype message_body =
    CustomMessage renderer_args
  | DefaultMessage "string option" string string bubble_view "(string \<times> nat \<times> bool) list option"

record item_view =
  iv_key :: timetoken
  iv_own :: bool
  iv_body :: message_body
  iv_react_button :: bool

record ml_view =
  unread_banner :: "int option"
  spinner :: bool
  items :: "item_view list"
  welcome_shown :: "welcome_view option"
  picker :: "bool option"

section \<open>Renderers\<close>

definition is_own_message :: "uuid \<Rightarrow> uuid \<Rightarrow> bool" where
  "is_own_message me u \<longleftrightarrow> me = u"

text \<open>\<open>props.filter ? props.filter(message) : true\<close>.\<close>

definition filter_passes :: "ml_render_props \<Rightarrow> message \<Rightarrow> bool" where
  "filter_passes rp m = (case msg_filter rp of None \<Rightarrow> True | Some f \<Rightarrow> f m)"

definition render_attachment :: "attachment \<Rightarrow> attachment_view" where
  "render_attachment a =
     (if att_type a = ''image'' then ImageView (att_image a)
      else if att_type a = ''link'' then
        LinkView (att_provider_url a) (att_image a) (att_icon a) (att_provider_name a)
          (att_title a) (att_description a)
      else EmptyAttachment)"

definition render_welcome :: "ml_render_props \<Rightarrow> welcome_view option" where
  "render_welcome rp =
     (case welcome_renderer rp of
        None \<Rightarrow> Some DefaultWelcome
      | Some WelcomeDisabled \<Rightarrow> None
      | Some WelcomeCustom \<Rightarrow> Some CustomWelcome)"

text \<open>\<open>message.message.sender || getUser(uuid)\<close>.\<close>

definition message_user :: "user list \<Rightarrow> message \<Rightarrow> user option" where
  "message_user us m = (case msg_sender m of Some u \<Rightarrow> Some u | None \<Rightarrow> find_user us (message_sender m))"

text \<open>\<open>user?.profileUrl\<close> when truthy: the avatar's picture.\<close>

definition avatar_of :: "user option \<Rightarrow> string option" where
  "avatar_of u = (case u of Some usr \<Rightarrow> if truthy (profile_url usr) then profile_url usr else None | None \<Rightarrow> None)"

definition render_message ::
  "ml_props \<Rightarrow> ml_render_props \<Rightarrow> view_env \<Rightarrow> message \<Rightarrow> message_body" where
  "render_message p rp env m =
     (let uuid = message_sender m;
          user = message_user (ve_users env) m;
          time = get_time (ve_tz env) (timetoken m);
          own = is_own_message (ve_me env) uuid;
          args = \<lparr>ra_message = m, ra_user = user, ra_time = time, ra_own = own\<rparr>
      in if has_message_renderer rp \<and> filter_passes rp m then CustomMessage args
         else DefaultMessage (avatar_of user)
                (js_or_default (case user of Some u \<Rightarrow> user_name u | None \<Rightarrow> None) uuid) time
                (if has_bubble_renderer rp \<and> filter_passes rp m then CustomBubble args
                 else DefaultBubble (msg_text m) (map render_attachment (msg_attachments m)))
                (if enable_reactions p then render_reactions (ve_me env) m else None))"

definition render_item :: "ml_props \<Rightarrow> ml_render_props \<Rightarrow> view_env \<Rightarrow> message \<Rightarrow> item_view" where
  "render_item p rp env m =
     \<lparr>iv_key = timetoken m, iv_own = is_own_message (ve_me env) (message_sender m),
      iv_body = render_message p rp env m, iv_react_button = enable_reactions p\<rparr>"

text \<open>The list: the banner when \<open>unreadMessages > 0\<close>, the spinner, the items,
  the welcome message for an empty list that is not loading, and the picker,
  shown or hidden, when reactions are on.\<close>

definition ml_render :: "ml_props \<Rightarrow> ml_render_props \<Rightarrow> view_env \<Rightarrow> ml_state \<Rightarrow> ml_view" where
  "ml_render p rp env s =
     \<lparr>unread_banner = (if 0 < unread s then Some (unread s) else None),
      spinner = spinner_shown p s,
      items = map (render_item p rp env) (cur_messages s),
      welcome_shown = (if cur_messages s = [] \<and> \<not> fetching s then render_welcome rp else None),
      picker = (if enable_reactions p then Some (picker_shown s) else None)\<rparr>"

text \<open>\<open>MessageList.defaultProps\<close>: reactions off, no history.\<close>

definition ml_default_props :: ml_props where
  "ml_default_props = \<lparr>fetch_messages = 0, enable_reactions = False\<rparr>"

text \<open>The reaction chips of an item, and their well-formedness as React needs it:
  distinct keys among the siblings, and every chip counting a reaction.\<close>

fun body_chips :: "message_body \<Rightarrow> (string \<times> nat \<times> bool) list" where
  "body_chips (CustomMessage _) = []"
| "body_chips (DefaultMessage _ _ _ _ cs) = (case cs of None \<Rightarrow> [] | Some l \<Rightarrow> l)"

definition chips_wf :: "(string \<times> nat \<times> bool) list \<Rightarrow> bool" where
  "chips_wf cs \<longleftrightarrow> distinct (map fst cs) \<and> list_all (\<lambda>(v, n, a). 0 < n) cs"

definition plain_render_props :: ml_render_props where
  "plain_render_props =
     \<lparr>welcome_renderer = None, has_message_renderer = False, has_bubble_renderer = False, msg_filter = None\<rparr>"

section \<open>Invariant of the list state\<close>

text \<open>At the bottom of the list there is nothing unread.\<close>

definition bottom_clear :: "ml_state \<Rightarrow> bool" where
  "bottom_clear s \<longleftrightarrow> (scrolled_bottom s \<longrightarrow> unread s = 0)"

section \<open>DOM helpers\<close>

text \<open>
  \<open>scrollToBottom\<close>: \<open>if (!endRef.current) return; endRef.current.scrollIntoView()\<close>.
  Scrolling the bottom marker into view makes the bottom observer, which
  observes it once \<open>setupBottomObserver\<close> has run, report an intersection:
  \<open>handleBottomScroll(true)\<close>. \<open>observed\<close> says the marker is mounted and
  observed; otherwise nothing happens.
\<close>

definition scroll_to_bottom :: "bool \<Rightarrow> ml_state \<Rightarrow> ml_state" where
  "scroll_to_bottom observed s = (if observed then handle_bottom_scroll True s else s)"

text \<open>The banner's \<open>onClick={() => scrollToBottom()}\<close>.\<close>

definition unread_banner_click :: "bool \<Rightarrow> ml_state \<Rightarrow> ml_state" where
  "unread_banner_click observed s = scroll_to_bottom observed s"

section \<open>Lemmas\<close>

lemma unread_scroll_frame [simp]:
  "unread (handle_history_fetch p r s) = unread s"
  "scrolled_bottom (handle_history_fetch p r s) = scrolled_bottom s"
  "unread (fst (channel_effect p s)) = unread s"
  "scrolled_bottom (fst (channel_effect p s)) = scrolled_bottom s"
  "unread (fetch_history_finish p res s) = unread s"
  "scrolled_bottom (fetch_history_finish p res s) = scrolled_bottom s"
  "unread (fetch_more_finish p res s) = unread s"
  "scrolled_bottom (fetch_more_finish p res s) = scrolled_bottom s"
  by (simp_all add: handle_history_fetch_def channel_effect_def fetch_history_start_def
      fetch_history_finish_def fetch_more_finish_def Let_def split: sum.splits)

lemma bottom_clear_messages_effect: "bottom_clear s \<Longrightarrow> bottom_clear (messages_effect s)"
  by (simp add: bottom_clear_def messages_effect_def Let_def)

lemma bottom_clear_frame:
  "unread s' = unread s \<Longrightarrow> scrolled_bottom s' = scrolled_bottom s \<Longrightarrow> bottom_clear s \<Longrightarrow> bottom_clear s'"
  by (simp add: bottom_clear_def)

text \<open>
  C8: In every reachable state of the hooks-based list, whenever the list is
  scrolled to the bottom its unread counter is zero: every handler that adds
  to the counter does so only away from the bottom, and reaching the bottom
  resets it.
\<close>

theorem ml_reach_bottom_clear:
  assumes "ml_reach p S"
  shows "bottom_clear (ui S)"
  using assms
proof (induction rule: ml_reach.induct)
  case (mounted c)
  show ?case
    by (simp add: mount_def init_state_def bottom_clear_def channel_effect_def
        fetch_history_start_def messages_effect_def Let_def cur_messages_def split: prod.split)
next
  case (step S e)
  note inv = step.IH
  show ?case
  proof (cases e)
    case (Switch c)
    then show ?thesis
      using inv bottom_clear_messages_effect bottom_clear_frame [of "fst (channel_effect p ((ui S)\<lparr>cur_channel := c\<rparr>))"]
      by (auto simp: open_channel_def split: prod.split)
  next
    case (Live m)
    then show ?thesis
      using inv bottom_clear_messages_effect by (auto simp: deliver_live_def Let_def bottom_clear_def)
  next
    case (Scroll b)
    then show ?thesis by (simp add: bottom_clear_def handle_bottom_scroll_def Let_def)
  next
    case SpinnerVisible
    then show ?thesis using inv by (simp split: option.split)
  next
    case (Respond i res)
    let ?s1 = "case req_kind (inflight S ! i) of Initial \<Rightarrow> fetch_history_finish p res (ui S)
                 | More \<Rightarrow> fetch_more_finish p res (ui S)"
    have "bottom_clear ?s1"
      using inv by (rule bottom_clear_frame [rotated 2]) (simp_all split: fetch_kind.split)
    then show ?thesis
      using Respond inv by (simp add: respond_def Let_def bottom_clear_messages_effect)
  qed
qed

theorem ml_reach_bottom_clear_witness:
  "ml_reach (paged_props 100) (ml_run (paged_props 100) (mount (paged_props 100) ''c'') [Scroll False, Scroll True])
   \<and> bottom_clear (ui (ml_run (paged_props 100) (mount (paged_props 100) ''c'') [Scroll False, Scroll True]))"
  using ml_reach_bottom_clear [OF ml_reach_mount_run] ml_reach_mount_run by blast





end
