(* ===== verification/ClassView.thy ===== *)
theory ClassView
  imports ClassList TimelineView
begin

text \<open>
  What the class-based \<open>MessageList\<close> (\<open>src/src/message-list/message-list.tsx\<close>)
  renders, and the context it renders in: the \<open>PubNubProvider\<close> of
  \<open>src/src/pubnub-provider/pubnub-provider.tsx\<close> builds a client from its
  props and passes it, with the channel, as the context value \<open>cl_context\<close>.
\<close>

section \<open>The provider\<close>

record pubnub_provider_props =
  publish_key :: string
  subscribe_key :: string
  pn_uuid :: uuid
  pn_channel :: channel_id

text \<open>The context outside any provider: no client, empty channel.\<close>

definition default_context :: cl_context where
  "default_context = \<lparr>has_pubnub = False, ctx_channel = ''''\<rparr>"

text \<open>
  \<open>PubNubProvider\<close>: a new client built from the keys and uuid, and the channel.
  The client's \<open>getUUID()\<close> is the uuid it was built with (\<open>provider_uuid\<close>).
\<close>

definition pubnub_provider :: "pubnub_provider_props \<Rightarrow> cl_context" where
  "pubnub_provider pp = \<lparr>has_pubnub = True, ctx_channel = pn_channel pp\<rparr>"

definition provider_uuid :: "cl_context \<Rightarrow> pubnub_provider_props \<Rightarrow> uuid option" where
  "provider_uuid ctx pp = (if has_pubnub ctx then Some (pn_uuid pp) else None)"

section \<open>Views\<close>

record cl_render_props =
  cl_has_message_renderer :: bool

datatype cl_message_body =
    ClCustomMessage renderer_args
  | ClDefaultMessage "string option" string string string

record cl_item_view =
  ci_key :: timetoken
  ci_own :: bool
  ci_body :: cl_message_body

record cl_view =
  cl_spinner :: bool
  cl_items :: "cl_item_view list"
  cl_unread_banner :: "nat option"

text \<open>\<open>this.context.pubnub?.getUUID() === uuid\<close>; \<open>me\<close> is \<open>None\<close> without a client.\<close>

definition cl_is_own_message :: "uuid option \<Rightarrow> uuid \<Rightarrow> bool" where
  "cl_is_own_message me u \<longleftrightarrow> me = Some u"

text \<open>
  \<open>renderMessage\<close>: the user from the props or the fetched users (no
  \<open>message.sender\<close> here), the avatar only for a truthy \<open>profileUrl\<close>,
  \<open>user?.name || "Unknown User"\<close>, the time and the text.
\<close>

definition cl_render_message ::
  "cl_props \<Rightarrow> cl_render_props \<Rightarrow> int \<Rightarrow> uuid option \<Rightarrow> cl_state \<Rightarrow> message \<Rightarrow> cl_message_body" where
  "cl_render_message p rp tz me s m =
     (let uuid = message_sender m;
          user = cl_get_user p (cl_users s) uuid;
          time = get_time tz (timetoken m);
          own = cl_is_own_message me uuid
      in if cl_has_message_renderer rp
         then ClCustomMessage \<lparr>ra_message = m, ra_user = user, ra_time = time, ra_own = own\<rparr>
         else ClDefaultMessage (avatar_of user)
                (js_or_default (case user of Some u \<Rightarrow> user_name u | None \<Rightarrow> None) ''Unknown User'')
                time (msg_text m))"

definition cl_render_item ::
  "cl_props \<Rightarrow> cl_render_props \<Rightarrow> int \<Rightarrow> uuid option \<Rightarrow> cl_state \<Rightarrow> message \<Rightarrow> cl_item_view" where
  "cl_render_item p rp tz me s m =
     \<lparr>ci_key = timetoken m, ci_own = cl_is_own_message me (message_sender m),
      ci_body = cl_render_message p rp tz me s m\<rparr>"

text \<open>\<open>render()\<close>: nothing without a client or with an empty channel name.\<close>

definition cl_render ::
  "cl_context \<Rightarrow> cl_props \<Rightarrow> cl_render_props \<Rightarrow> int \<Rightarrow> uuid option \<Rightarrow> cl_state \<Rightarrow> cl_view option" where
  "cl_render ctx p rp tz me s =
     (if \<not> has_pubnub ctx \<or> ctx_channel ctx = [] then None
      else Some \<lparr>cl_spinner = (\<not> disable_history_fetch p \<and> \<not> cl_pagination_end s),
                 cl_items = map (cl_render_item p rp tz me s) (cl_messages s),
                 cl_unread_banner = (if 0 < unread_messages s then Some (unread_messages s) else None)\<rparr>)"

text \<open>A named user and a message of theirs, for concrete scenarios.\<close>

definition alice_user :: user where
  "alice_user = \<lparr>user_id = ''u1'', user_name = Some ''Alice'', profile_url = None\<rparr>"

definition alice_env :: view_env where
  "alice_env = \<lparr>ve_me = ''u2'', ve_users = [alice_user], ve_tz = 0\<rparr>"

definition alice_cl_props :: cl_props where
  "alice_cl_props = \<lparr>disable_user_fetch = False, props_users = [alice_user], disable_history_fetch = False\<rparr>"

definition alice_message :: message where
  "alice_message = (sample_message ''c'' 200)\<lparr>msg_text := ''hi'', m_uuid := Some ''u1''\<rparr>"

text \<open>\<open>MessageList.defaultProps\<close> of the class list: no users given, the flags unset.\<close>

definition cl_default_props :: cl_props where
  "cl_default_props = \<lparr>disable_user_fetch = False, props_users = [], disable_history_fetch = False\<rparr>"

section \<open>DOM helpers\<close>

text \<open>\<open>scrollToBottom\<close> of the class list, as in the hooks list: the bottom observer reports \<open>handleBottomScroll(true)\<close>.\<close>

definition cl_scroll_to_bottom :: "bool \<Rightarrow> cl_state \<Rightarrow> cl_state" where
  "cl_scroll_to_bottom observed s = (if observed then cl_handle_bottom_scroll True s else s)"

definition cl_unread_banner_click :: "bool \<Rightarrow> cl_state \<Rightarrow> cl_state" where
  "cl_unread_banner_click observed s = cl_scroll_to_bottom observed s"

section \<open>Lemmas\<close>

text \<open>\<open>render()\<close> shows nothing exactly when \<open>componentDidMount\<close> throws for want of a context.\<close>

lemma cl_render_None_iff_mount_error:
  "cl_render ctx p rp tz me s = None \<longleftrightarrow>
   snd (snd (cl_did_mount p ctx res s)) \<in> {Some NoContext, Some EmptyChannel}"
  by (auto simp: cl_render_def cl_did_mount_def cl_handle_history_fetch_Inl split: sum.splits)

lemma outside_provider:
  "cl_render default_context p rp tz me s = None
   \<and> cl_did_mount p default_context res s = (s, False, Some NoContext)"
  by (simp add: cl_render_def cl_did_mount_def default_context_def)

lemma under_provider:
  assumes "pn_channel pp \<noteq> []"
  shows "cl_render (pubnub_provider pp) p rp tz (provider_uuid (pubnub_provider pp) pp) s \<noteq> None
    \<and> fst (snd (cl_did_mount p (pubnub_provider pp) res s))"
  using assms by (auto simp: cl_render_def cl_did_mount_def pubnub_provider_def split: sum.splits)

lemma cl_own_under_provider:
  "ci_own (cl_render_item p rp tz (provider_uuid (pubnub_provider pp) pp) s m)
   \<longleftrightarrow> message_sender m = pn_uuid pp"
  by (auto simp: cl_render_item_def cl_is_own_message_def provider_uuid_def pubnub_provider_def)

text \<open>
  C25: In both message lists, clicking the unread banner while the bottom
  marker is observed scrolls to the bottom: the observer's report marks the
  list as at the bottom and clears the counter, so the next render shows no
  banner, and the messages are untouched.
\<close>

theorem banner_click_clears_unread:
  "unread_banner (ml_render p rp env (unread_banner_click True s)) = None
   \<and> scrolled_bottom (unread_banner_click True s)
   \<and> cur_messages (unread_banner_click True s) = cur_messages s
   \<and> map_option cl_unread_banner (cl_render ctx cp crp tz me (cl_unread_banner_click True cs)) \<in> {None, Some None}
   \<and> cl_scrolled_bottom (cl_unread_banner_click True cs)
   \<and> cl_messages (cl_unread_banner_click True cs) = cl_messages cs"
  by (simp add: unread_banner_click_def scroll_to_bottom_def handle_bottom_scroll_def ml_render_def
      cur_messages_def cl_unread_banner_click_def cl_scroll_to_bottom_def cl_handle_bottom_scroll_def
      cl_render_def)



text \<open>Where they differ: a sender neither list knows is shown by id in the hooks list and as "Unknown User" in the class list.\<close>

lemma unknown_sender_author_differs:
  assumes "msg_sender m = None" and "find_user (ve_users env) (message_sender m) = None"
    and "cl_get_user cp (cl_users cs) (message_sender m) = None"
    and "\<not> has_message_renderer rp" and "\<not> cl_has_message_renderer crp"
  shows "\<exists>a t b r. render_message p rp env m = DefaultMessage a (message_sender m) t b r
    \<and> (\<exists>a' t'. cl_render_message cp crp (ve_tz env) me cs m = ClDefaultMessage a' ''Unknown User'' t' (msg_text m))"
  using assms by (simp add: render_message_def cl_render_message_def message_user_def Let_def js_or_default_def)

end
