(* ===== verification/Typing.thy ===== *)
theory Typing
  imports Message
begin

text \<open>
  The typing indicator of \<open>src/src/typing-indicator/typing-indicator.tsx\<close>:
  the users whose last typing signal is younger than the timeout, shown as
  one line of text or as one bubble per user.
\<close>

section \<open>Data\<close>

text \<open>
  The atoms the component reads: the users' metadata, the typing signals of
  the current channel (an object from user id to the signal's timetoken, a
  string), the timeout in seconds, and the clock \<open>Date.now()\<close> in milliseconds.
\<close>

record typing_env =
  ti_users :: "user list"
  ti_indicators :: "(uuid \<times> string) list"
  ti_timeout :: int
  ti_now :: int

record typing_props =
  show_as_message :: bool

datatype typing_view =
    IndicatorText string
  | UserBubbles "(uuid \<times> string \<times> string option) list"

section \<open>Operations\<close>

text \<open>
  \<open>Date.now() - parseInt(t) / 10000 < typingIndicatorTimeout * 1000\<close>, multiplied
  through by \<open>10000\<close>: exact over the rationals. A signal that does not parse
  is \<open>NaN\<close> and compares false. The rounding of the quotient to a double
  (below a millisecond) is not modelled.
\<close>

definition typing_active :: "int \<Rightarrow> int \<Rightarrow> string \<Rightarrow> bool" where
  "typing_active now timeout v =
     (case parse_int v of None \<Rightarrow> False | Some t \<Rightarrow> now * 10000 - t < timeout * 10000000)"

definition active_uuids :: "typing_env \<Rightarrow> uuid list" where
  "active_uuids e =
     filter (\<lambda>i. case map_of (ti_indicators e) i of
                   Some v \<Rightarrow> typing_active (ti_now e) (ti_timeout e) v | None \<Rightarrow> False)
       (object_keys (ti_indicators e))"

text \<open>\<open>user?.name || "Unknown User"\<close> for \<open>users.find((u) => u.id === uuid)\<close>.\<close>

definition user_label :: "user list \<Rightarrow> uuid \<Rightarrow> string" where
  "user_label us i =
     js_or_default (case find_user us i of Some u \<Rightarrow> user_name u | None \<Rightarrow> None) ''Unknown User''"

definition get_indication_string :: "typing_env \<Rightarrow> string" where
  "get_indication_string e =
     (let a = active_uuids e;
          s = (if 1 < length a then ''Multiple users are typing...'' else '''')
      in if length a = 1 then user_label (ti_users e) (hd a) @ '' is typing...'' else s)"

definition render_user_bubble :: "user list \<Rightarrow> uuid \<Rightarrow> uuid \<times> string \<times> string option" where
  "render_user_bubble us i =
     (i, user_label us i,
      case find_user us i of Some u \<Rightarrow> (if truthy (profile_url u) then profile_url u else None) | None \<Rightarrow> None)"

definition typing_indicator :: "typing_props \<Rightarrow> typing_env \<Rightarrow> typing_view" where
  "typing_indicator p e =
     (if show_as_message p then UserBubbles (map (render_user_bubble (ti_users e)) (active_uuids e))
      else IndicatorText (get_indication_string e))"

text \<open>The largest magnitude of a parsed signal, a bound for the time they all expire.\<close>

definition alice_typing :: user where
  "alice_typing = \<lparr>user_id = ''alice'', user_name = Some ''Alice'', profile_url = None\<rparr>"

text \<open>A channel where \<open>zed\<close> and \<open>7\<close> typed recently and \<open>alice\<close>'s signal is malformed.\<close>

definition typing_scene :: typing_env where
  "typing_scene =
     \<lparr>ti_users = [alice_typing], ti_indicators = [(''zed'', ''990000''), (''7'', ''1000000''), (''alice'', ''abc'')],
      ti_timeout = 1, ti_now = 100\<rparr>"

definition signal_bound :: "(uuid \<times> string) list \<Rightarrow> int" where
  "signal_bound tis = sum_list (map (\<lambda>(i, v). case parse_int v of Some t \<Rightarrow> \<bar>t\<bar> | None \<Rightarrow> 0) tis)"

text \<open>\<open>TypingIndicator.defaultProps\<close>: indication as text.\<close>

definition typing_default_props :: typing_props where
  "typing_default_props = \<lparr>show_as_message = False\<rparr>"

section \<open>Lemmas\<close>

lemma map_of_Some_key: "map_of xs k = Some v \<Longrightarrow> k \<in> fst ` set xs"
  by (force dest: map_of_SomeD)

lemma signal_le_bound:
  assumes "(i, v) \<in> set tis" and "parse_int v = Some t"
  shows "\<bar>t\<bar> \<le> signal_bound tis"
proof -
  have "(case parse_int v of Some t \<Rightarrow> \<bar>t\<bar> | None \<Rightarrow> 0)
        \<in> set (map (\<lambda>(i, v). case parse_int v of Some t \<Rightarrow> \<bar>t\<bar> | None \<Rightarrow> (0::int)) tis)"
    using assms(1) by force
  then have "\<bar>t\<bar> \<le> sum_list (map (\<lambda>(i, v). case parse_int v of Some t \<Rightarrow> \<bar>t\<bar> | None \<Rightarrow> (0::int)) tis)"
    using assms(2) by (intro member_le_sum_list) (auto intro: sum_list_nonneg split: option.splits)
  then show ?thesis by (simp add: signal_bound_def)
qed

lemmas typing_eval_defs = active_uuids_def typing_active_def parse_int_def strip_sign_def strip_prefix_def
  is_digit_def digit_val_def digits_value_def js_whitespace_def object_keys_def is_array_index_def
  typing_indicator_def get_indication_string_def render_user_bubble_def user_label_def find_user_def
  js_or_default_def typing_scene_def alice_typing_def js_number_exact


text \<open>
  C35: Without new signals every typing indication disappears: there is a time
  after which no user is listed.
\<close>

theorem typing_expires:
  "\<exists>N. \<forall>now \<ge> N. active_uuids (e\<lparr>ti_now := now\<rparr>) = []"
proof
  let ?T = "ti_timeout e * 10000000"
  let ?N = "(signal_bound (ti_indicators e) + \<bar>?T\<bar>) div 10000 + 1"
  show "\<forall>now \<ge> ?N. active_uuids (e\<lparr>ti_now := now\<rparr>) = []"
  proof (intro allI impI)
    fix now assume now: "?N \<le> now"
    have "\<not> typing_active now (ti_timeout e) v" if "map_of (ti_indicators e) i = Some v" for i v
    proof (cases "parse_int v")
      case (Some t)
      have "\<bar>t\<bar> \<le> signal_bound (ti_indicators e)"
        using signal_le_bound [OF map_of_SomeD [OF that] Some] .
      moreover have "signal_bound (ti_indicators e) + \<bar>?T\<bar> < ?N * 10000" by simp
      ultimately have "?T \<le> now * 10000 - t" using now by linarith
      with Some show ?thesis by (simp add: typing_active_def)
    qed (simp add: typing_active_def)
    then show "active_uuids (e\<lparr>ti_now := now\<rparr>) = []"
      by (auto simp: active_uuids_def filter_empty_conv split: option.splits)
  qed
qed

theorem typing_expires_witness:
  "active_uuids typing_scene \<noteq> []
   \<and> (\<exists>N. \<forall>now \<ge> N. active_uuids (typing_scene\<lparr>ti_now := now\<rparr>) = [])"
proof -
  have "active_uuids typing_scene \<noteq> []" by (simp add: typing_eval_defs)
  then show ?thesis using typing_expires [of typing_scene] by blast
qed


text \<open>
  In a channel where \<open>zed\<close> and \<open>7\<close> typed within the timeout and
  \<open>alice\<close>'s signal is malformed, the text reads "Multiple users are typing...",
  and the bubbles list \<open>7\<close> before \<open>zed\<close>: \<open>Object.keys\<close> puts numeric ids first.
\<close>

theorem typing_scene_view:
  "active_uuids typing_scene = [''7'', ''zed'']
   \<and> typing_indicator \<lparr>show_as_message = False\<rparr> typing_scene = IndicatorText ''Multiple users are typing...''
   \<and> typing_indicator \<lparr>show_as_message = True\<rparr> typing_scene
       = UserBubbles [(''7'', ''Unknown User'', None), (''zed'', ''Unknown User'', None)]
   \<and> typing_indicator \<lparr>show_as_message = False\<rparr> (typing_scene\<lparr>ti_now := 1099\<rparr>)
       = IndicatorText ''Unknown User is typing...''"
  by (simp add: typing_eval_defs)

end
