(* ===== verification/LiveLayout.thy ===== *)
theory LiveLayout
  imports Prelude
begin

text \<open>
  The layout effects of the live-events sample
  (\<open>src/samples/live-events/src/index.tsx\<close>): two side panels, chat and
  channels, opened and closed by two effects as the window is resized. A
  render holds the state and the values \<open>usePrevious\<close> returned; after a
  render the effects whose dependencies changed run, their updates are
  batched, and a changed state renders again until it is stable.
\<close>

section \<open>Renders and effects\<close>

definition md_breakpoint :: int where "md_breakpoint = 768"
definition lg_breakpoint :: int where "lg_breakpoint = 1024"

text \<open>
  One render of \<open>LiveEventChat\<close>: the window width, the two panel flags, and
  what \<open>usePrevious\<close> returned for them (\<open>None\<close> for \<open>undefined\<close> at mount;
  \<open>usePrevious(width) || 0\<close> is 0 then).
\<close>

record layout_render =
  r_width :: int
  r_chat :: bool
  r_chan :: bool
  r_prev_width :: int
  r_prev_chat :: "bool option"
  r_prev_chan :: "bool option"

text \<open>\<open>!prev\<close> for a value that may be \<open>undefined\<close>.\<close>

definition js_not :: "bool option \<Rightarrow> bool" where
  "js_not b = (case b of None \<Rightarrow> True | Some x \<Rightarrow> \<not> x)"

text \<open>
  The first effect, on \<open>[prevWidth, width]\<close>: open or close the panels when
  the width crosses a breakpoint. It maps the pending (chat, channels) state.
\<close>

definition size_effect :: "layout_render \<Rightarrow> bool \<times> bool \<Rightarrow> bool \<times> bool" where
  "size_effect r s =
     (let w = r_width r; pw = r_prev_width r; (chat, chan) = s;
          chat1 = (if w < md_breakpoint \<and> md_breakpoint \<le> pw then False else chat);
          chat2 = (if md_breakpoint \<le> w \<and> pw < md_breakpoint then True else chat1);
          chan1 = (if lg_breakpoint \<le> w \<and> pw < lg_breakpoint then True else chan);
          chan2 = (if w < lg_breakpoint \<and> lg_breakpoint \<le> pw then False else chan1)
      in (chat2, chan2))"

text \<open>
  The second effect: between the breakpoints, when the render shows both
  panels open, close the one that was already open at the previous render.
  It reads the render's values, not the first effect's pending updates.
\<close>

definition panel_effect :: "layout_render \<Rightarrow> bool \<times> bool \<Rightarrow> bool \<times> bool" where
  "panel_effect r s =
     (if r_width r < md_breakpoint \<or> lg_breakpoint \<le> r_width r then s
      else if \<not> r_chat r \<or> \<not> r_chan r then s
      else (if js_not (r_prev_chan r) then False else fst s,
            if js_not (r_prev_chat r) then False else snd s))"

definition size_deps :: "layout_render \<Rightarrow> int \<times> int" where
  "size_deps r = (r_prev_width r, r_width r)"

definition panel_deps :: "layout_render \<Rightarrow> int \<times> bool \<times> bool option \<times> bool \<times> bool option" where
  "panel_deps r = (r_width r, r_chat r, r_prev_chat r, r_chan r, r_prev_chan r)"

text \<open>The effects after a render, given the previous render (\<open>None\<close> at mount).\<close>

definition run_effects :: "layout_render option \<Rightarrow> layout_render \<Rightarrow> bool \<times> bool" where
  "run_effects lo r =
     (let s0 = (r_chat r, r_chan r);
          s1 = (if (case lo of None \<Rightarrow> True | Some l \<Rightarrow> size_deps l \<noteq> size_deps r)
                then size_effect r s0 else s0)
      in if (case lo of None \<Rightarrow> True | Some l \<Rightarrow> panel_deps l \<noteq> panel_deps r)
         then panel_effect r s1 else s1)"

definition next_render :: "layout_render \<Rightarrow> int \<Rightarrow> bool \<times> bool \<Rightarrow> layout_render" where
  "next_render l w s =
     \<lparr>r_width = w, r_chat = fst s, r_chan = snd s, r_prev_width = r_width l,
      r_prev_chat = Some (r_chat l), r_prev_chan = Some (r_chan l)\<rparr>"

text \<open>Render until the effects change nothing; \<open>None\<close> when the fuel runs out.\<close>

fun settle :: "nat \<Rightarrow> layout_render option \<Rightarrow> layout_render \<Rightarrow> layout_render option" where
  "settle 0 lo r = None"
| "settle (Suc n) lo r =
     (let s = run_effects lo r
      in if s = (r_chat r, r_chan r) then Some r else settle n (Some r) (next_render r (r_width r) s))"

definition layout_fuel :: nat where "layout_fuel = 3"

text \<open>The first render: \<open>useState(width >= lgBreakpoint)\<close>, \<open>useState(width >= mdBreakpoint)\<close>.\<close>

definition layout_mount :: "int \<Rightarrow> layout_render option" where
  "layout_mount w =
     settle layout_fuel None
       \<lparr>r_width = w, r_chat = md_breakpoint \<le> w, r_chan = lg_breakpoint \<le> w, r_prev_width = 0,
        r_prev_chat = None, r_prev_chan = None\<rparr>"

text \<open>
  What renders the component again: a new window width, the panel components
  setting a panel flag, or any other state change (theme, current channel).
  Setting a state to its current value does not render.
\<close>

datatype layout_event = Resize int | SetChannels bool | SetChat bool | OtherUpdate

fun layout_step :: "layout_render \<Rightarrow> layout_event \<Rightarrow> layout_render option" where
  "layout_step r (Resize w) =
     (if w = r_width r then Some r else settle layout_fuel (Some r) (next_render r w (r_chat r, r_chan r)))"
| "layout_step r (SetChannels b) =
     (if b = r_chan r then Some r else settle layout_fuel (Some r) (next_render r (r_width r) (r_chat r, b)))"
| "layout_step r (SetChat b) =
     (if b = r_chat r then Some r else settle layout_fuel (Some r) (next_render r (r_width r) (b, r_chan r)))"
| "layout_step r OtherUpdate = settle layout_fuel (Some r) (next_render r (r_width r) (r_chat r, r_chan r))"

fun layout_run :: "layout_render option \<Rightarrow> layout_event list \<Rightarrow> layout_render option" where
  "layout_run None es = None"
| "layout_run (Some r) [] = Some r"
| "layout_run (Some r) (e # es) = layout_run (layout_step r e) es"

text \<open>Both panels opened below the md breakpoint, as the sample reaches it (\<open>both_open_reachable\<close>).\<close>

definition both_open_small :: layout_render where
  "both_open_small =
     \<lparr>r_width = 500, r_chat = True, r_chan = True, r_prev_width = 500,
      r_prev_chat = Some False, r_prev_chan = Some True\<rparr>"

section \<open>Lemmas\<close>

lemmas layout_eval_defs = layout_mount_def layout_fuel_def run_effects_def size_effect_def
  panel_effect_def size_deps_def panel_deps_def next_render_def md_breakpoint_def lg_breakpoint_def
  js_not_def numeral_3_eq_3 both_open_small_def

lemma size_effect_same_width: "r_prev_width r = r_width r \<Longrightarrow> size_effect r s = s"
  by (cases s) (auto simp: size_effect_def Let_def)

lemma panel_effect_not_both: "\<not> (r_chat r \<and> r_chan r) \<Longrightarrow> panel_effect r s = s"
  by (auto simp: panel_effect_def)

lemma panel_effect_closes:
  "panel_effect r (r_chat r, r_chan r) = (r_chat r, r_chan r)
   \<or> \<not> (fst (panel_effect r (r_chat r, r_chan r)) \<and> snd (panel_effect r (r_chat r, r_chan r)))"
  by (auto simp: panel_effect_def)

lemma run_effects_same_width:
  assumes "r_prev_width r = r_width r"
  shows "run_effects lo r = (r_chat r, r_chan r) \<or> run_effects lo r = panel_effect r (r_chat r, r_chan r)"
  using assms by (simp add: run_effects_def size_effect_same_width Let_def)

lemma run_effects_same_width_not_both:
  assumes "r_prev_width r = r_width r" and "\<not> (r_chat r \<and> r_chan r)"
  shows "run_effects lo r = (r_chat r, r_chan r)"
  using run_effects_same_width [OF assms(1), of lo] panel_effect_not_both [OF assms(2)] by auto

lemma next_render_fields [simp]:
  "r_width (next_render l w s) = w" "r_chat (next_render l w s) = fst s"
  "r_chan (next_render l w s) = snd s" "r_prev_width (next_render l w s) = r_width l"
  by (simp_all add: next_render_def)

text \<open>
  C39: Contrary to the comment "Allow only one side panel to be open on the md
  breakpoint", when both panels are open below the md breakpoint and the
  window grows into the md range, both stay open: the second effect sees both
  panels open at the previous render and closes neither.
\<close>

theorem resize_into_md_keeps_both_open:
  assumes "r_width r < md_breakpoint" and "md_breakpoint \<le> w" and "w < lg_breakpoint"
    and "r_chat r" and "r_chan r"
  shows "\<exists>r'. layout_step r (Resize w) = Some r' \<and> r_width r' = w \<and> r_chat r' \<and> r_chan r'"
proof -
  let ?r1 = "next_render r w (True, True)"
  have w: "w \<noteq> r_width r" using assms(1,2) by simp
  have "run_effects (Some r) ?r1 = (True, True)"
    using assms by (auto simp: run_effects_def size_effect_def panel_effect_def Let_def
        next_render_def js_not_def)
  then have "settle layout_fuel (Some r) ?r1 = Some ?r1"
    by (simp add: layout_fuel_def numeral_3_eq_3)
  then show ?thesis using w assms(4,5) by simp
qed

theorem resize_into_md_keeps_both_open_witness:
  "layout_run (layout_mount 500) [SetChannels True, SetChat True] = Some both_open_small
   \<and> (\<exists>r'. layout_step both_open_small (Resize 900) = Some r' \<and> r_width r' = 900 \<and> r_chat r' \<and> r_chan r')"
proof -
  have reach: "layout_run (layout_mount 500) [SetChannels True, SetChat True] = Some both_open_small"
    by (simp add: layout_eval_defs)
  have h: "r_width both_open_small < md_breakpoint" "md_breakpoint \<le> 900" "900 < lg_breakpoint"
    "r_chat both_open_small" "r_chan both_open_small"
    by (simp_all add: layout_eval_defs)
  show ?thesis using reach resize_into_md_keeps_both_open [OF h] by simp
qed

text \<open>
  C40: From any render the effects settle within three renders: after the
  first re-render the width is its own previous width, so only the second
  effect can act, and it only closes panels.
\<close>

theorem layout_settles:
  "settle layout_fuel lo r \<noteq> None"
proof -
  let ?s = "run_effects lo r"
  let ?r1 = "next_render r (r_width r) ?s"
  let ?s1 = "run_effects (Some r) ?r1"
  let ?r2 = "next_render ?r1 (r_width r) ?s1"
  have w1: "r_prev_width ?r1 = r_width ?r1" by simp
  have w2: "r_prev_width ?r2 = r_width ?r2" by simp
  have c1: "?s1 = ?s \<or> \<not> (fst ?s1 \<and> snd ?s1)"
    using run_effects_same_width [OF w1, of "Some r"] panel_effect_closes [of ?r1] by auto
  have "?s1 \<noteq> ?s \<Longrightarrow> run_effects (Some ?r1) ?r2 = ?s1"
    using c1 run_effects_same_width_not_both [OF w2, of "Some ?r1"] by auto
  then show ?thesis by (auto simp: layout_fuel_def numeral_3_eq_3 Let_def)
qed

end
