(* ===== verification/LiveEvents.thy ===== *)
theory LiveEvents
  imports LiveLayout
begin

text \<open>
  The rest of \<open>LiveEventChat\<close> in \<open>src/samples/live-events/src/index.tsx\<close>:
  the current channel, the presence lookups and the props passed to
  \<open>Chat\<close>. The channel data (\<open>event.json\<close>) and the presence map come from
  outside \<open>src/\<close> and are inputs.
\<close>

section \<open>State and props\<close>

text \<open>A channel of \<open>event.json\<close>, by the fields the sample reads.\<close>

record event_channel =
  ec_id :: channel_id
  ec_name :: string

record presence_info =
  occupants :: "uuid list"
  occupancy :: int

record live_state =
  dark_mode :: bool
  current_channel :: event_channel

text \<open>What the sample passes on: the theme, \<open>Chat\<close>'s current channel and channel list, and the occupants and occupancy of the current channel.\<close>

record live_view =
  lv_theme :: string
  lv_current :: channel_id
  lv_chat_channels :: "channel_id list"
  lv_presence_channels :: "channel_id list"
  lv_occupants :: "uuid list option"
  lv_occupancy :: "int option"

section \<open>Operations\<close>

text \<open>\<open>useState(true)\<close>, \<open>useState(channels[0])\<close>: with no channels the first render reads \<open>undefined.id\<close> and throws.\<close>

definition live_init :: "event_channel list \<Rightarrow> live_state option" where
  "live_init chans = (case chans of [] \<Rightarrow> None | c # _ \<Rightarrow> Some \<lparr>dark_mode = True, current_channel = c\<rparr>)"

text \<open>\<open>[currentChannel.id, ...channels.map((ch) => `${ch.id}-pnpres`)]\<close>.\<close>

definition chat_channels :: "event_channel \<Rightarrow> event_channel list \<Rightarrow> channel_id list" where
  "chat_channels cur chans = ec_id cur # map (\<lambda>c. ec_id c @ ''-pnpres'') chans"

text \<open>\<open>presence[currentChannel.id]?.occupants\<close> and \<open>?.occupancy\<close>.\<close>

definition channel_presence :: "(channel_id \<times> presence_info) list \<Rightarrow> event_channel \<Rightarrow> presence_info option" where
  "channel_presence pr cur = map_of pr (ec_id cur)"

definition live_render ::
  "event_channel list \<Rightarrow> (channel_id \<times> presence_info) list \<Rightarrow> live_state \<Rightarrow> live_view" where
  "live_render chans pr st =
     \<lparr>lv_theme = (if dark_mode st then ''dark'' else ''light''),
      lv_current = ec_id (current_channel st),
      lv_chat_channels = chat_channels (current_channel st) chans,
      lv_presence_channels = map ec_id chans,
      lv_occupants = map_option occupants (channel_presence pr (current_channel st)),
      lv_occupancy = map_option occupancy (channel_presence pr (current_channel st))\<rparr>"

text \<open>The setters the child views call: \<open>setCurrentChannel\<close> and \<open>setDarkMode\<close>.\<close>

definition set_current_channel :: "event_channel \<Rightarrow> live_state \<Rightarrow> live_state" where
  "set_current_channel c st = st\<lparr>current_channel := c\<rparr>"

definition set_dark_mode :: "bool \<Rightarrow> live_state \<Rightarrow> live_state" where
  "set_dark_mode b st = st\<lparr>dark_mode := b\<rparr>"

section \<open>Lemmas\<close>

text \<open>
  A channel switch changes only the channel \<open>Chat\<close> subscribes to for
  messages: the presence channels it subscribes to, and those
  \<open>usePresence\<close> watches, stay the same.
\<close>

lemma switch_keeps_presence_channels:
  "tl (lv_chat_channels (live_render chans pr (set_current_channel c st)))
     = tl (lv_chat_channels (live_render chans pr st))
   \<and> lv_presence_channels (live_render chans pr (set_current_channel c st))
     = lv_presence_channels (live_render chans pr st)
   \<and> lv_current (live_render chans pr (set_current_channel c st)) = ec_id c"
  by (simp add: live_render_def chat_channels_def set_current_channel_def)

lemma live_init_Some_iff: "live_init chans \<noteq> None \<longleftrightarrow> chans \<noteq> []"
  by (cases chans) (simp_all add: live_init_def)

end
