(* ===== verification/ChannelList.thy ===== *)
theory ChannelList
  imports Prelude "HOL-Library.List_Lexorder" "HOL-Library.Char_ord"
begin

text \<open>
  The channel list of \<open>src/src/channel-list/channel-list.tsx\<close>: the channels
  passed as props (strings or channel objects) are converted, filtered, sorted
  with the configured or the default comparator, and rendered with the entry
  of the current channel marked active.
\<close>

section \<open>Data\<close>

record channel =
  ch_id :: channel_id
  ch_name :: string
  ch_description :: "string option"

text \<open>An element of \<open>props.channels: Channel[] | string[]\<close>.\<close>

datatype channel_arg = ChannelString string | ChannelObject channel

text \<open>
  \<open>ChannelListProps\<close>: the optional \<open>sort\<close> and \<open>filter\<close> callbacks as
  optional functions; of \<open>channelRenderer\<close> and \<open>onChannelSwitched\<close> only
  their presence matters to the list.
\<close>

record channel_list_props =
  channels :: "channel_arg list"
  sort_fn :: "(channel \<Rightarrow> channel \<Rightarrow> int) option"
  filter_fn :: "(channel \<Rightarrow> bool) option"
  has_channel_renderer :: bool
  has_on_switched :: bool

text \<open>What \<open>renderChannel\<close> produces: the custom renderer's output for a channel, or
  the default entry with its key, name, description (shown when truthy) and
  active flag.\<close>

datatype channel_view =
    CustomChannel channel
  | ChannelItem channel_id string "string option" bool

section \<open>Operations\<close>

definition is_channel_active :: "channel_id \<Rightarrow> channel \<Rightarrow> bool" where
  "is_channel_active cur c \<longleftrightarrow> cur = ch_id c"

text \<open>
  \<open>a.localeCompare(b, "en", {sensitivity: "base"})\<close> compares at the primary
  level: letters are compared without case. \<open>base_key\<close> folds ASCII case;
  on names made of ASCII letters, digits and spaces the order of the folded
  strings is the collation order. Accents and other scripts are not modelled.
\<close>

definition fold_case :: "char \<Rightarrow> char" where
  "fold_case c = (let n = of_char c :: nat in if 65 \<le> n \<and> n \<le> 90 then char_of (n + 32) else c)"

definition base_key :: "string \<Rightarrow> string" where
  "base_key s = map fold_case s"

definition locale_compare_base :: "string \<Rightarrow> string \<Rightarrow> int" where
  "locale_compare_base a b =
     (if base_key a < base_key b then -1 else if base_key a = base_key b then 0 else 1)"

definition channel_sorter :: "channel_list_props \<Rightarrow> channel \<Rightarrow> channel \<Rightarrow> int" where
  "channel_sorter p a b =
     (case sort_fn p of Some f \<Rightarrow> f a b | None \<Rightarrow> locale_compare_base (ch_name a) (ch_name b))"

definition channel_filter :: "channel_list_props \<Rightarrow> channel \<Rightarrow> bool" where
  "channel_filter p c = (case filter_fn p of Some f \<Rightarrow> f c | None \<Rightarrow> True)"

primrec channel_from_string :: "channel_arg \<Rightarrow> channel" where
  "channel_from_string (ChannelString s) = \<lparr>ch_id = s, ch_name = s, ch_description = None\<rparr>"
| "channel_from_string (ChannelObject c) = c"

text \<open>\<open>switchChannel\<close>: the call of \<open>onChannelSwitched\<close>, if the prop is set.\<close>

definition switch_channel :: "channel_list_props \<Rightarrow> channel \<Rightarrow> channel option" where
  "switch_channel p c = (if has_on_switched p then Some c else None)"

definition render_channel :: "channel_id \<Rightarrow> channel_list_props \<Rightarrow> channel \<Rightarrow> channel_view" where
  "render_channel cur p c =
     (let active = is_channel_active cur c in
      if has_channel_renderer p then CustomChannel c
      else ChannelItem (ch_id c) (ch_name c)
             (if truthy (ch_description c) then ch_description c else None) active)"

text \<open>\<open>channels.map(channelFromString).filter(channelFilter).sort(channelSorter)\<close>.\<close>

definition shown_channels :: "channel_list_props \<Rightarrow> channel list" where
  "shown_channels p =
     js_sort (channel_sorter p) (filter (channel_filter p) (map channel_from_string (channels p)))"

definition channel_list :: "channel_id \<Rightarrow> channel_list_props \<Rightarrow> channel_view list" where
  "channel_list cur p = map (render_channel cur p) (shown_channels p)"

text \<open>A click on the i-th entry.\<close>

definition channel_click :: "channel_list_props \<Rightarrow> nat \<Rightarrow> channel option" where
  "channel_click p i = (if i < length (shown_channels p) then switch_channel p (shown_channels p ! i) else None)"

fun item_active :: "channel_view \<Rightarrow> bool" where
  "item_active (ChannelItem _ _ _ a) = a"
| "item_active (CustomChannel _) = False"

definition string_channels :: "string list \<Rightarrow> channel_list_props" where
  "string_channels cs =
     \<lparr>channels = map ChannelString cs, sort_fn = None, filter_fn = None,
      has_channel_renderer = False, has_on_switched = True\<rparr>"

section \<open>Lemmas\<close>

lemmas channel_eval_defs = shown_channels_def js_sort_def channel_sorter_def locale_compare_base_def
  base_key_def fold_case_def channel_filter_def less_char_def of_char_of eq_char_of_iff char_of_eq_iff
  channel_list_def render_channel_def is_channel_active_def string_channels_def

lemma default_sorter_by_key: "sort_fn p = None \<Longrightarrow> cmp_by_key (base_key \<circ> ch_name) (channel_sorter p)"
  by (auto simp: cmp_by_key_def channel_sorter_def locale_compare_base_def)

lemma shown_channels_default:
  "sort_fn p = None \<Longrightarrow>
   shown_channels p = sort_key (base_key \<circ> ch_name) (filter (channel_filter p) (map channel_from_string (channels p)))"
  by (simp add: shown_channels_def js_sort_sort_key default_sorter_by_key)

lemma mset_js_sort [simp]: "mset (js_sort cmp xs) = mset xs"
  by (induction xs rule: rev_induct) (simp_all add: js_sort_def)

lemma distinct_ids_shown:
  assumes "distinct (map (ch_id \<circ> channel_from_string) (channels p))"
  shows "distinct (map ch_id (shown_channels p))"
proof -
  have "distinct (map ch_id (filter (channel_filter p) (map channel_from_string (channels p))))"
    using assms by (simp add: distinct_map_filter)
  moreover have "mset (map ch_id (shown_channels p))
      = mset (map ch_id (filter (channel_filter p) (map channel_from_string (channels p))))"
    by (simp add: shown_channels_def)
  ultimately show ?thesis by (metis distinct_count_atmost_1 set_mset_mset count_mset)
qed

lemma length_filter_distinct_key:
  "distinct (map f xs) \<Longrightarrow> length (filter (\<lambda>x. k = f x) xs) = (if k \<in> f ` set xs then 1 else 0)"
  by (induction xs) (auto simp: filter_empty_conv)

lemma filter_item_active:
  "\<not> has_channel_renderer p \<Longrightarrow>
   filter item_active (map (render_channel cur p) cs) = map (render_channel cur p) (filter (is_channel_active cur) cs)"
  by (induction cs) (auto simp: render_channel_def Let_def)



text \<open>
  C31: With the default renderer and distinct channel ids, exactly one entry is
  marked active when the current channel is shown, and none otherwise.
\<close>

theorem channel_list_one_active:
  assumes "distinct (map (ch_id \<circ> channel_from_string) (channels p))"
    and "\<not> has_channel_renderer p"
  shows "length (filter item_active (channel_list cur p))
         = (if cur \<in> ch_id ` set (shown_channels p) then 1 else 0)"
proof -
  have "length (filter item_active (channel_list cur p))
        = length (filter (\<lambda>c. cur = ch_id c) (shown_channels p))"
    using assms(2) by (simp add: channel_list_def filter_item_active is_channel_active_def [abs_def])
  then show ?thesis
    using length_filter_distinct_key [OF distinct_ids_shown [OF assms(1)]] by simp
qed

theorem channel_list_one_active_witness:
  "distinct (map (ch_id \<circ> channel_from_string) (channels (string_channels [''general'', ''art''])))
   \<and> \<not> has_channel_renderer (string_channels [''general'', ''art''])
   \<and> length (filter item_active (channel_list ''art'' (string_channels [''general'', ''art'']))) = 1"
proof -
  have h1: "distinct (map (ch_id \<circ> channel_from_string) (channels (string_channels [''general'', ''art''])))"
    by (simp add: string_channels_def)
  have h2: "\<not> has_channel_renderer (string_channels [''general'', ''art''])"
    by (simp add: string_channels_def)
  have "''art'' \<in> ch_id ` set (shown_channels (string_channels [''general'', ''art'']))"
    by (simp add: channel_eval_defs)
  then show ?thesis using channel_list_one_active [OF h1 h2, of "''art''"] h1 h2 by simp
qed

text \<open>
  C32: With a custom channel renderer the output does not depend on the
  current channel: the active flag \<open>renderChannel\<close> computes is never passed on.
\<close>

theorem custom_renderer_ignores_current:
  assumes "has_channel_renderer p"
  shows "channel_list cur p = channel_list cur' p"
  using assms by (simp add: channel_list_def render_channel_def)

theorem custom_renderer_ignores_current_witness:
  "has_channel_renderer ((string_channels [''a'', ''b''])\<lparr>has_channel_renderer := True\<rparr>)
   \<and> channel_list ''a'' ((string_channels [''a'', ''b''])\<lparr>has_channel_renderer := True\<rparr>)
     = channel_list ''b'' ((string_channels [''a'', ''b''])\<lparr>has_channel_renderer := True\<rparr>)"
  using custom_renderer_ignores_current [of "(string_channels [''a'', ''b''])\<lparr>has_channel_renderer := True\<rparr>" "''a''" "''b''"]
  by simp

text \<open>
  The default order ignores case, and channels whose names differ only in
  case stay in the order they are passed.
\<close>

theorem case_variants_keep_input_order:
  "map ch_name (shown_channels (string_channels [''general'', ''General''])) = [''general'', ''General'']
   \<and> map ch_name (shown_channels (string_channels [''General'', ''general''])) = [''General'', ''general'']
   \<and> map ch_name (shown_channels (string_channels [''b'', ''A''])) = [''A'', ''b'']"
  by (simp add: channel_eval_defs)

end
