(* ===== verification/Config.thy ===== *)
theory Config
  imports Prelude
begin

text \<open>
  The configuration-level code of the repository: the Metro bundler
  configuration of the React Native load tests
  (\<open>src/load-tests/react-native/metro.config.js\<close>), which computes its
  folders with Node's \<open>path.resolve\<close>; the Storybook decorator and parameters
  (\<open>src/.storybook/preview.js\<close>); the keyboard behaviour of the React Native
  sample (\<open>src/samples/getting-started-react-native/App.tsx\<close>); and the emoji
  picker test mock (\<open>src/packages/react/mock/emoji-picker-mock.tsx\<close>).
\<close>

section \<open>Node's path.resolve (POSIX)\<close>

text \<open>A path split at every \<open>/\<close>; an absolute path starts with an empty segment.\<close>

fun split_path :: "string \<Rightarrow> string list" where
  "split_path [] = [[]]"
| "split_path (c # cs) =
     (if c = CHR ''/'' then [] # split_path cs
      else (case split_path cs of w # ws \<Rightarrow> (c # w) # ws | [] \<Rightarrow> [[c]]))"

text \<open>
  Normalisation of an absolute path: empty and \<open>.\<close> segments are dropped,
  \<open>..\<close> removes the previous segment and is dropped at the root.
\<close>

definition norm_step :: "string list \<Rightarrow> string \<Rightarrow> string list" where
  "norm_step acc seg =
     (if seg = [] \<or> seg = ''.'' then acc else if seg = ''..'' then butlast acc else acc @ [seg])"

definition norm_segs :: "string list \<Rightarrow> string list" where
  "norm_segs segs = foldl norm_step [] segs"

fun join_segments :: "string list \<Rightarrow> string" where
  "join_segments [] = []"
| "join_segments [w] = w"
| "join_segments (w # ws) = w @ CHR ''/'' # join_segments ws"

definition join_path :: "string list \<Rightarrow> string" where
  "join_path segs = CHR ''/'' # join_segments segs"

definition is_absolute :: "string \<Rightarrow> bool" where
  "is_absolute p \<longleftrightarrow> p \<noteq> [] \<and> hd p = CHR ''/''"

text \<open>
  \<open>path.resolve(...args)\<close> works from the right and stops at the first absolute
  argument, prefixing the working directory when there is none: the arguments
  that count are those from the last absolute one on. The working directory is
  absolute.
\<close>

definition from_last_absolute :: "string list \<Rightarrow> string list" where
  "from_last_absolute ps = foldl (\<lambda>acc p. if is_absolute p then [p] else acc @ [p]) [] ps"

definition path_resolve :: "string \<Rightarrow> string list \<Rightarrow> string" where
  "path_resolve cwd args =
     join_path (norm_segs (concat (map split_path (from_last_absolute (cwd # args)))))"

text \<open>A segment as normalisation leaves it.\<close>

definition plain_segment :: "string \<Rightarrow> bool" where
  "plain_segment seg \<longleftrightarrow> seg \<noteq> [] \<and> seg \<noteq> ''.'' \<and> seg \<noteq> ''..'' \<and> CHR ''/'' \<notin> set seg"

section \<open>Metro configuration\<close>

record metro_config =
  watch_folders :: "string list"
  node_modules_paths :: "string list"

text \<open>
  \<open>metro.config.js\<close> for the directory \<open>dirname\<close> of the file: the workspace
  root two levels up is watched, and packages resolve from the project's
  \<open>node_modules\<close>, then the workspace's, then \<open>../common\<close>.
\<close>

definition metro_config :: "string \<Rightarrow> string \<Rightarrow> metro_config" where
  "metro_config cwd dirname =
     (let workspace_root = path_resolve cwd [dirname, ''../..''];
          project_root = dirname
      in \<lparr>watch_folders = [workspace_root],
          node_modules_paths =
            [path_resolve cwd [project_root, ''node_modules''],
             path_resolve cwd [workspace_root, ''node_modules''],
             path_resolve cwd [dirname, ''../common'']]\<rparr>)"

section \<open>Storybook\<close>

record chat_components_props =
  cc_channel :: channel_id
  cc_theme :: string

text \<open>The decorator: every story renders inside \<open>ChatComponents\<close> on the fixed channel, with \<open>context.parameters.theme || "dark"\<close>.\<close>

definition story_decorator :: "string option \<Rightarrow> chat_components_props" where
  "story_decorator theme =
     \<lparr>cc_channel = ''space_ac4e67b98b34b44c4a39466e93e'', cc_theme = js_or_default theme ''dark''\<rparr>"

text \<open>\<open>argTypesRegex: "^on[A-Z].*"\<close>: the props Storybook turns into logged actions.\<close>

definition is_action_arg :: "string \<Rightarrow> bool" where
  "is_action_arg name \<longleftrightarrow>
     take 2 name = ''on'' \<and> 2 < length name
     \<and> 65 \<le> (of_char (name ! 2) :: nat) \<and> (of_char (name ! 2) :: nat) \<le> 90"

section \<open>React Native sample and test mock\<close>

datatype platform_os = IOS | Android | Web | Windows | MacOS

text \<open>\<open>Platform.OS === "ios" ? "padding" : "height"\<close>.\<close>

definition keyboard_behavior :: "platform_os \<Rightarrow> string" where
  "keyboard_behavior os = (if os = IOS then ''padding'' else ''height'')"

text \<open>The mock picker: a click on an emoji button calls \<open>onEmojiSelect({native: textContent})\<close> when given.\<close>

definition emoji_mock_click :: "bool \<Rightarrow> string \<Rightarrow> string option" where
  "emoji_mock_click has_on_select text = (if has_on_select then Some text else None)"

section \<open>Lemmas\<close>

lemma split_path_no_slash: "CHR ''/'' \<notin> set w \<Longrightarrow> split_path w = [w]"
  by (induction w) auto

lemma split_path_append_slash:
  "CHR ''/'' \<notin> set w \<Longrightarrow> split_path (w @ CHR ''/'' # r) = w # split_path r"
proof (induction w)
  case (Cons c w)
  then show ?case by (cases "split_path r") auto
qed simp

lemma split_path_join:
  "segs \<noteq> [] \<Longrightarrow> \<forall>w \<in> set segs. CHR ''/'' \<notin> set w \<Longrightarrow>
   split_path (join_segments segs) = segs"
proof (induction segs rule: induct_list012)
  case (2 w)
  then show ?case by (simp add: split_path_no_slash)
next
  case (3 w v vs)
  then show ?case by (simp add: split_path_append_slash)
qed simp

lemma norm_segs_plain:
  "\<forall>w \<in> set segs. plain_segment w \<Longrightarrow> foldl norm_step acc segs = acc @ segs"
  by (induction segs arbitrary: acc) (auto simp: norm_step_def plain_segment_def)

lemma split_path_no_slash_segments: "\<forall>w \<in> set (split_path p). CHR ''/'' \<notin> set w"
proof (induction p)
  case (Cons c cs)
  then show ?case by (cases "split_path cs") auto
qed simp

lemma norm_step_plain:
  "\<forall>w \<in> set acc. plain_segment w \<Longrightarrow> CHR ''/'' \<notin> set seg \<Longrightarrow>
   \<forall>w \<in> set (norm_step acc seg). plain_segment w"
  by (auto simp: norm_step_def plain_segment_def dest: in_set_butlastD)

lemma norm_segs_plain_result:
  assumes "\<forall>seg \<in> set segs. CHR ''/'' \<notin> set seg"
  shows "\<forall>w \<in> set (norm_segs segs). plain_segment w"
proof -
  have "\<forall>seg \<in> set xs. CHR ''/'' \<notin> set seg \<Longrightarrow> \<forall>w \<in> set acc. plain_segment w \<Longrightarrow>
        \<forall>w \<in> set (foldl norm_step acc xs). plain_segment w" for acc xs
  proof (induction xs arbitrary: acc)
    case (Cons a xs)
    then show ?case using norm_step_plain [of acc a] by simp
  qed simp
  from this [OF assms, of "[]"] show ?thesis by (simp add: norm_segs_def)
qed

lemma split_join_path:
  assumes "\<forall>w \<in> set segs. plain_segment w"
  shows "norm_segs (split_path (join_path segs)) = segs"
proof (cases "segs = []")
  case True
  then show ?thesis by (simp add: join_path_def norm_segs_def norm_step_def)
next
  case False
  have "\<forall>w \<in> set segs. CHR ''/'' \<notin> set w" using assms by (simp add: plain_segment_def)
  then have "split_path (join_path segs) = [] # segs"
    using False by (simp add: join_path_def split_path_join)
  then show ?thesis
    using norm_segs_plain [OF assms, of "[]"] by (simp add: norm_segs_def norm_step_def)
qed

text \<open>Resolving a resolved path gives it back: \<open>path.resolve\<close> is idempotent.\<close>

lemma path_resolve_idem: "path_resolve cwd [path_resolve cwd args] = path_resolve cwd args"
proof -
  let ?n = "norm_segs (concat (map split_path (from_last_absolute (cwd # args))))"
  have "from_last_absolute [cwd, join_path ?n] = [join_path ?n]"
    by (simp add: from_last_absolute_def is_absolute_def join_path_def)
  moreover have "\<forall>seg \<in> set (concat (map split_path (from_last_absolute (cwd # args)))). CHR ''/'' \<notin> set seg"
    using split_path_no_slash_segments by auto
  then have "\<forall>w \<in> set ?n. plain_segment w" by (rule norm_segs_plain_result)
  ultimately show ?thesis
    by (simp add: path_resolve_def split_join_path)
qed

lemma metro_config_load_tests:
  "metro_config ''/'' ''/repo/load-tests/react-native'' =
   \<lparr>watch_folders = [''/repo''],
    node_modules_paths = [''/repo/load-tests/react-native/node_modules'', ''/repo/node_modules'',
                          ''/repo/load-tests/common'']\<rparr>"
  by (simp add: metro_config_def path_resolve_def from_last_absolute_def is_absolute_def
      norm_segs_def norm_step_def join_path_def)


text \<open>Stories without a theme, or with an empty one, render dark; the list's callbacks are logged as actions.\<close>

lemma storybook_defaults:
  "cc_theme (story_decorator None) = ''dark'' \<and> cc_theme (story_decorator (Some '''')) = ''dark''
   \<and> cc_theme (story_decorator (Some ''light'')) = ''light''
   \<and> is_action_arg ''onScroll'' \<and> is_action_arg ''onMessage'' \<and> is_action_arg ''onChannelSwitched''
   \<and> \<not> is_action_arg ''online'' \<and> \<not> is_action_arg ''on''"
  by (simp add: story_decorator_def js_or_default_def is_action_arg_def)

end
