(* ===== verification/Spec2Isabelle.thy ===== *)
theory Spec2Isabelle
  imports ClassView Typing LiveEvents ChannelList Config
begin

text \<open>
  \<^bold>\<open>Chat components: a verified model of the message timeline.\<close>

  The repository is a React component library for chat over a hosted
  publish/subscribe service. Its logic is the message list: it fetches the
  channel's history page by page as the user scrolls up, merges live messages,
  keeps an unread counter while the user is scrolled away from the bottom, and
  shows reactions. There are two implementations of it:
  \<^item> the hooks-based \<open>MessageList\<close> of \<open>src/lib/src/message-list/message-list.tsx\<close>,
    which reads the channel, its messages and the pagination flag from Recoil
    atoms (theory \<open>Timeline\<close>);
  \<^item> the class-based \<open>MessageList\<close> of \<open>src/src/message-list/message-list.tsx\<close>,
    which keeps everything in class state and appends live messages itself
    (theory \<open>ClassList\<close>).
  Both consume the service's history response (\<open>fetch_response\<close>, a page of
  messages per channel) and the message record of theory \<open>Message\<close>
  (\<open>MessageListMessage\<close>, \<open>MessageListUser\<close>).

  \<^bold>\<open>Layout.\<close>
  \<^item> \<open>Prelude\<close>: the JavaScript conventions the code relies on: truthiness of
    \<open>||\<close> on optional strings (\<open>truthy\<close>, \<open>js_or\<close>), the coercion of a
    timetoken to an IEEE double (\<open>js_number\<close>, exact below \<open>2^53\<close>),
    \<open>Array.from(new Set(..))\<close> (\<open>dedup_first\<close>), \<open>Array.prototype.sort\<close>
    with a comparator (\<open>js_sort\<close>, equal to the library's stable \<open>sort_key\<close>
    for a comparator consistent with a key: \<open>js_sort_sort_key\<close>), \<open>parseInt\<close>
    and \<open>String\<close> of an integer (\<open>parse_int\<close>, \<open>show_int\<close>, with the round
    trip \<open>parse_int_show_int\<close>), and the key order of \<open>Object.keys\<close>
    (\<open>object_keys\<close>: array indices first, ascending, then insertion order).
  \<^item> \<open>Message\<close>: \<open>message\<close>, \<open>action_entry\<close>, \<open>user\<close>, the sender of a message
    (\<open>message_sender\<close>) and the comparator key (\<open>msg_key\<close>).
  \<^item> \<open>Timeline\<close>: the hooks-based list. \<open>ml_state\<close> holds the atoms and hooks;
    \<open>handle_history_fetch\<close>, \<open>handle_bottom_scroll\<close>, \<open>messages_effect\<close>,
    \<open>channel_effect\<close> are the handlers and effects; \<open>fetch_history_start\<close>/
    \<open>_finish\<close> and \<open>fetch_more_request\<close>/\<open>_finish\<close> split each async fetch at
    its \<open>await\<close>. \<open>ml_event_step\<close> runs one event (channel switch, live
    message, scroll, spinner intersection, response to the i-th fetch in
    flight) on \<open>ml_sys\<close>, the state plus the fetches in flight, so responses
    interleave with everything else; \<open>ml_reach\<close> is the set of reachable
    states. The per-channel store behind \<open>CurrentChannelMessagesAtom\<close> and the
    live listener that fills it (\<open>deliver_live\<close>, \<open>insert_live\<close>) are not in
    \<open>src/\<close> and follow the specification's merge rule.
  \<^item> \<open>ClassList\<close>: the class-based list: \<open>cl_handle_history_fetch\<close> (with its
    \<open>TypeError\<close> on an empty result as an error value), \<open>cl_handle_on_message\<close>,
    \<open>cl_handle_bottom_scroll\<close>, the sender-fetching loop \<open>senders_loop\<close>,
    \<open>cl_did_mount\<close>; \<open>cl_run\<close> runs a list of events; \<open>unread_spec\<close> is the
    specification's unread count.
  \<^item> \<open>Reactions\<close>: the reactions of the hooks-based list: the chips of
    \<open>renderReactions\<close> (\<open>render_reactions\<close>), the command their \<open>onClick\<close>
    sends (\<open>reaction_click\<close>, an \<open>action_cmd\<close>: \<open>addMessageAction\<close> or
    \<open>removeMessageAction\<close>), and the emoji picker's handlers
    (\<open>handle_open_reactions\<close>, \<open>handle_close_reactions\<close>,
    \<open>picker_select\<close>) on the picker fields of \<open>ml_state\<close>. The service's
    echo of a command and its aggregation into \<open>message.actions\<close> happen
    in the chat provider outside \<open>src/\<close> and follow the specification
    (\<open>apply_cmd\<close>, \<open>add_reaction_local\<close>, \<open>remove_reaction_local\<close>).
  \<^item> \<open>ChannelList\<close>: \<open>src/src/channel-list/channel-list.tsx\<close>:
    \<open>channel_from_string\<close>, \<open>channel_filter\<close>, \<open>channel_sorter\<close> (the
    \<open>sort\<close> prop or \<open>localeCompare\<close> at base sensitivity), \<open>shown_channels\<close>
    (convert, filter, sort), \<open>render_channel\<close> and \<open>channel_list\<close>.
  \<^item> \<open>Typing\<close>: \<open>src/src/typing-indicator/typing-indicator.tsx\<close>: the timeout
    filter \<open>active_uuids\<close> over the signals' keys, \<open>get_indication_string\<close>,
    \<open>render_user_bubble\<close> and \<open>typing_indicator\<close>; the clock is an input.
  \<^item> \<open>MessageTime\<close>: \<open>getTime\<close> of both message lists (\<open>get_time\<close>), with
    the \<open>Date\<close> range check, truncation and local hours and minutes.
  \<^item> \<open>TimelineView\<close>: what the hooks-based list renders: \<open>render_message\<close>
    (custom renderers, filter, avatar, author, time, bubble, attachments,
    reaction chips), \<open>render_item\<close>, \<open>render_welcome\<close> and the list view
    \<open>ml_render\<close> (unread banner, spinner, items, welcome message, picker).
  \<^item> \<open>ClassView\<close>: the \<open>PubNubProvider\<close> (\<open>pubnub_provider\<close>, the context value
    \<open>cl_context\<close>, \<open>default_context\<close> outside a provider) and what the class
    list renders (\<open>cl_render\<close>, \<open>cl_render_item\<close>, \<open>cl_render_message\<close>).
  \<^item> \<open>LiveLayout\<close>: the breakpoint effects of the live-events sample
    (\<open>src/samples/live-events/src/index.tsx\<close>): a render (\<open>layout_render\<close>)
    holds the width, the panel flags and what \<open>usePrevious\<close> returned;
    \<open>run_effects\<close> runs the effects whose dependencies changed, batching
    their updates; \<open>settle\<close> renders again until nothing changes;
    \<open>layout_step\<close> handles a resize, a panel toggle or another update.
  \<^item> \<open>LiveEvents\<close>: the rest of the sample: the current channel and theme,
    the presence lookups and the props given to \<open>Chat\<close> (\<open>live_render\<close>,
    \<open>chat_channels\<close>).
  \<^item> \<open>Config\<close>: the configuration-level code: Node's \<open>path.resolve\<close>
    (\<open>path_resolve\<close>, POSIX normalisation) and the Metro configuration
    computed with it (\<open>metro_config\<close>), the Storybook decorator and action
    pattern, the React Native sample's keyboard behaviour, and the emoji
    picker test mock.
  \<^item> this theory: properties relating the two implementations and the
    specification.

  \<^bold>\<open>What is proved.\<close> The history merge keeps every channel list sorted by the
  comparator's key in every reachable state, loses no message and prepends an
  older page (the specification's \<open>loadOlderPage\<close>); the pagination flag,
  the scroll handler and the unread counter behave as specified, and in every
  reachable state a list scrolled to the bottom has nothing unread; the class
  list's unread counter refines the specification's count; the two
  implementations merge history identically and render a message with a
  known, named sender identically. A click on a reaction chip
  toggles the user's reaction, adding is idempotent and removal undoes it,
  and the picker always knows its target while shown. The channel list shows
  exactly the filtered channels in case-insensitive order with one active
  entry; a user is shown typing exactly while their signal is younger than
  the timeout, and every indication expires; a message's time label, within the
  date range, has two minute digits that read back as the minute. Every rendered item is
  well-formed for React (distinct chip keys, no empty chip), and mounting a
  channel shows the spinner until the first page is rendered in its place. The
  sample's layout effects always settle within three renders. Clicking the
  unread banner clears the counter in both lists; typing bubbles come in
  \<open>Object.keys\<close> order; \<open>path.resolve\<close> is idempotent, and the Metro
  configuration resolves the workspace root and the module paths in order. The same theorems expose where the
  code departs from the specification: the merge is not idempotent (no
  deduplication), page requests are not single-flight, a stale response after a
  channel switch ends pagination, the unread counter can go negative, the
  numeric comparator confuses timetokens above \<open>2^53\<close>, the class list throws
  on an empty history, appends live messages out of order and stops fetching
  senders at the first known one; a custom channel renderer is never told
  which channel is active, the two lists name an unknown sender
  differently (its id, or "Unknown User"), typing bubbles list numeric ids first, and the
  sample's layout leaves both side panels open when the window grows from
  small into the md range.

  \<^bold>\<open>Bounds and fuel.\<close> No loop of the code needs fuel: the history merge is a
  sort, the sender loop is structural recursion over the distinct senders, and
  the event-level models run a given finite list of events. Timetokens are
  unbounded integers; their coercion to doubles is modelled exactly, including
  rounding above \<open>2^53\<close>, up to the double range (\<open>2^1024\<close>). Where the code
  divides a timetoken by \<open>10000\<close> (typing timeout, \<open>getTime\<close>) the quotient is
  exact: its rounding to a double moves it by less than a millisecond and is
  not modelled. \<open>localeCompare\<close> at base sensitivity is modelled by ASCII case
  folding, exact for names of ASCII letters, digits and spaces. The time zone
  is a fixed offset. The layout's re-render loop runs with fuel 3
  (\<open>layout_fuel\<close>); \<open>layout_settles\<close> proves that it is always enough.
  \<open>typing_expires\<close> gives an explicit bound on the time
  after which no signal is active.

  \<^bold>\<open>Not modelled.\<close> Markup and styling (JSX structure, class names, CSS;
  the views are the data the markup shows). The observer setup
  (\<open>setupSpinnerObserver\<close>, \<open>setupBottomObserver\<close>): the observers reach the
  state only as the spinner and scroll events the models take as input;
  \<open>scrollToBottom\<close> is modelled by the report it causes. The SDK's
  transport, the Recoil atom definitions and the chat provider (outside
  \<open>src/\<close>, modelled from the specification where the list depends on them).
  Storybook's interpretation of \<open>storySort\<close>, the Jest doubles of Expo
  modules in \<open>file-mocks.tsx\<close> (fixed resolved promises, no logic of the
  program), and the React Native sample's layout. The live-events sample's client, \<open>usePresence\<close>, channel data
  and child views (not in \<open>src/\<close>; they are inputs of \<open>LiveEvents\<close>), and
  the positioning of the emoji picker in the DOM.
\<close>

section \<open>Cross-component properties\<close>

text \<open>
  C22: Whenever the class list's history merge succeeds, the hooks-based list
  given the same channel, messages, page size and response produces the same
  messages and the same pagination flag.
\<close>

theorem history_merge_implementations_agree:
  assumes "cur_channel s = ctx_channel ctx" and "cur_messages s = cl_messages cs"
    and "fetch_messages p = messages_per_page cs"
    and "cl_handle_history_fetch ctx r cs = Inr cs'"
  shows "cur_messages (handle_history_fetch p r s) = cl_messages cs'
         \<and> pagination_end (handle_history_fetch p r s) = cl_pagination_end cs'"
  using assms
  by (auto simp: cl_handle_history_fetch_def handle_history_fetch_def cur_messages_def Let_def
      split: list.splits)

theorem history_merge_implementations_agree_witness:
  "let s = init_state ''c''; ctx = \<lparr>has_pubnub = True, ctx_channel = ''c''\<rparr>;
       r = [(''c'', [sample_message ''c'' 200, sample_message ''c'' 100])]
   in cur_channel s = ctx_channel ctx \<and> cur_messages s = cl_messages cl_init
      \<and> fetch_messages (paged_props 100) = messages_per_page cl_init
      \<and> (\<exists>cs'. cl_handle_history_fetch ctx r cl_init = Inr cs'
          \<and> cur_messages (handle_history_fetch (paged_props 100) r s) = cl_messages cs'
          \<and> pagination_end (handle_history_fetch (paged_props 100) r s) = cl_pagination_end cs')"
proof -
  let ?s = "init_state ''c''"
  let ?ctx = "\<lparr>has_pubnub = True, ctx_channel = ''c''\<rparr>"
  let ?r = "[(''c'', [sample_message ''c'' 200, sample_message ''c'' 100])]"
  have h: "cur_channel ?s = ctx_channel ?ctx" "cur_messages ?s = cl_messages cl_init"
    "fetch_messages (paged_props 100) = messages_per_page cl_init"
    by (simp_all add: init_state_def cur_messages_def cl_init_def paged_props_def)
  have "\<exists>cs'. cl_handle_history_fetch ?ctx ?r cl_init = Inr cs'"
  proof (cases "cl_handle_history_fetch ?ctx ?r cl_init")
    case (Inl e)
    then show ?thesis by (simp add: cl_handle_history_fetch_Inl page_of_def)
  qed simp
  then obtain cs' where cs': "cl_handle_history_fetch ?ctx ?r cl_init = Inr cs'" by blast
  show ?thesis
    using history_merge_implementations_agree [OF h cs'] h cs' by auto
qed

text \<open>
  C23: For a live message newer than every held message, the class list's blind
  append is the specification's sorted, deduplicating insert.
\<close>

theorem cl_live_append_refines_insert:
  assumes "\<forall>x \<in> set (cl_messages s). msg_key x < msg_key m"
  shows "cl_messages (cl_handle_on_message m s) = insert_live m (cl_messages s)"
proof -
  have "timetoken m \<notin> set (map timetoken (cl_messages s))"
    using assms by (auto simp: msg_key_def)
  moreover have "insort_key msg_key m (cl_messages s) = cl_messages s @ [m]"
    using assms by (rule insort_key_greatest)
  ultimately show ?thesis
    by (simp add: insert_live_def cl_handle_on_message_def Let_def)
qed

theorem cl_live_append_refines_insert_witness:
  "let s = cl_init\<lparr>cl_messages := [sample_message ''c'' 100, sample_message ''c'' 200]\<rparr>;
       m = sample_message ''c'' 300
   in (\<forall>x \<in> set (cl_messages s). msg_key x < msg_key m)
      \<and> map timetoken (cl_messages (cl_handle_on_message m s)) = [100, 200, 300]
      \<and> cl_messages (cl_handle_on_message m s) = insert_live m (cl_messages s)"
proof -
  let ?s = "cl_init\<lparr>cl_messages := [sample_message ''c'' 100, sample_message ''c'' 200]\<rparr>"
  let ?m = "sample_message ''c'' 300"
  have h: "\<forall>x \<in> set (cl_messages ?s). msg_key x < msg_key ?m"
    by (simp add: msg_key_def sample_message_def js_number_exact)
  have e: "map timetoken (cl_messages (cl_handle_on_message ?m ?s)) = [100, 200, 300]"
    by (simp add: cl_handle_on_message_def sample_message_def Let_def)
  show ?thesis using cl_live_append_refines_insert [OF h] h e by simp
qed

end
